theory Spec2Isabelle
  imports Complex_Main
begin

section \<open>Scalar values of a cell\<close>

text \<open>
  A cell of either table holds a number, a text or nothing. Python and pandas distinguish
  \<open>None\<close> from the float not-a-number; both count as missing for \<open>pd.isna\<close>.
  Numbers are taken as exact rationals: rounding, overflow and the infinities of binary
  floating point are outside this development, so \<open>0.01\<close> is the rational \<open>1/100\<close>.
\<close>

datatype number = Finite rat | NotANumber

datatype val = Number number | PyNone | Str string

datatype py_error = ValueError | TypeError | KeyError

datatype errors_mode = Raise | Coerce

text \<open>
  Two library routines are not part of the program and are taken as parameters:
  \<open>floatify\<close> is the parser that \<open>pd.to_numeric\<close> applies to a non-empty text
  (\<open>None\<close> when the text is no numeral), and \<open>str_of_num\<close> is Python's \<open>str\<close> on a number.
\<close>

record pylib =
  floatify :: "string \<Rightarrow> number option"
  str_of_num :: "rat \<Rightarrow> string"

subsection \<open>Text helpers: \<open>str.strip\<close>, \<open>str.lower\<close>, \<open>in\<close>\<close>

text \<open>
  Texts are taken as ASCII: \<open>isspace\<close> holds the ASCII characters that \<open>str.strip\<close>
  removes and \<open>lower_char\<close> maps the ASCII capitals. The further whitespace and letters
  of Unicode (U+0085, U+00A0 and others) are outside this development.
\<close>

definition isspace :: "char \<Rightarrow> bool" where
  "isspace c = (c \<in> set [CHR 0x09, CHR 0x0A, CHR 0x0B, CHR 0x0C, CHR 0x0D,
                          CHR 0x1C, CHR 0x1D, CHR 0x1E, CHR 0x1F, CHR 0x20])"

definition strip :: "string \<Rightarrow> string" where
  "strip s = rev (dropWhile isspace (rev (dropWhile isspace s)))"

definition lower_char :: "char \<Rightarrow> char" where
  "lower_char c =
     (case map_of (zip ''ABCDEFGHIJKLMNOPQRSTUVWXYZ'' ''abcdefghijklmnopqrstuvwxyz'') c of
        Some d \<Rightarrow> d
      | None \<Rightarrow> c)"

definition lower :: "string \<Rightarrow> string" where
  "lower s = map lower_char s"

fun starts_with :: "string \<Rightarrow> string \<Rightarrow> bool" where
  "starts_with [] s = True"
| "starts_with (p # ps) [] = False"
| "starts_with (p # ps) (c # cs) = (p = c \<and> starts_with ps cs)"

text \<open>\<open>contains t s\<close> is Python's \<open>t in s\<close> on texts.\<close>

fun contains :: "string \<Rightarrow> string \<Rightarrow> bool" where
  "contains t [] = (t = [])"
| "contains t (c # cs) = (starts_with t (c # cs) \<or> contains t cs)"

subsection \<open>\<open>pd.isna\<close>, \<open>pd.to_numeric\<close>, \<open>str\<close>\<close>

fun isna :: "val \<Rightarrow> bool" where
  "isna (Number NotANumber) = True"
| "isna PyNone = True"
| "isna _ = False"

definition notna :: "val \<Rightarrow> bool" where
  "notna v = (\<not> isna v)"

fun isnan :: "number \<Rightarrow> bool" where
  "isnan NotANumber = True"
| "isnan (Finite r) = False"

text \<open>
  \<open>pd.to_numeric\<close> on a scalar: a number is returned as it is, \<open>None\<close> and the empty
  text become not-a-number, any other text goes through the parser; a text that does
  not parse raises \<open>ValueError\<close> under \<open>errors='raise'\<close> and becomes not-a-number under
  \<open>errors='coerce'\<close>.
\<close>

fun to_numeric :: "pylib \<Rightarrow> errors_mode \<Rightarrow> val \<Rightarrow> py_error + number" where
  "to_numeric L m (Number n) = Inr n"
| "to_numeric L m PyNone = Inr NotANumber"
| "to_numeric L m (Str s) =
     (if s = [] then Inr NotANumber
      else case floatify L s of
             Some n \<Rightarrow> Inr n
           | None \<Rightarrow> (case m of Raise \<Rightarrow> Inl ValueError | Coerce \<Rightarrow> Inr NotANumber))"

fun py_str :: "pylib \<Rightarrow> val \<Rightarrow> string" where
  "py_str L (Str s) = s"
| "py_str L (Number (Finite r)) = str_of_num L r"
| "py_str L (Number NotANumber) = ''nan''"
| "py_str L PyNone = ''None''"

section \<open>The value comparator\<close>

definition NUMERIC_TOLERANCE :: rat where
  "NUMERIC_TOLERANCE = 1 / 100"

definition SKIP_ZERO_VALUES :: bool where
  "SKIP_ZERO_VALUES = True"

text \<open>
  \<open>np.isclose(a, b, rtol, atol)\<close> on two numbers that are not not-a-number:
  \<open>|a - b| \<le> atol + rtol * |b|\<close>, or the two numbers are the same.
\<close>

definition isclose :: "rat \<Rightarrow> rat \<Rightarrow> rat \<Rightarrow> rat \<Rightarrow> bool" where
  "isclose a b rtol atol = (\<bar>a - b\<bar> \<le> atol + rtol * \<bar>b\<bar> \<or> a = b)"

definition norm_text :: "pylib \<Rightarrow> val \<Rightarrow> string" where
  "norm_text L v = (if notna v then lower (strip (py_str L v)) else [])"

text \<open>
  \<open>values_equal\<close>; the module constant \<open>NUMERIC_TOLERANCE\<close> is the parameter \<open>tol\<close>.
  The \<open>try\<close> block is left as soon as one of the two conversions raises.
\<close>

definition values_equal :: "pylib \<Rightarrow> rat \<Rightarrow> val \<Rightarrow> val \<Rightarrow> bool" where
  "values_equal L tol val1 val2 =
     (case to_numeric L Raise val1 of
        Inl e \<Rightarrow> norm_text L val1 = norm_text L val2
      | Inr num1 \<Rightarrow>
         (case to_numeric L Raise val2 of
            Inl e \<Rightarrow> norm_text L val1 = norm_text L val2
          | Inr num2 \<Rightarrow>
             (case (num1, num2) of
                (NotANumber, NotANumber) \<Rightarrow> True
              | (NotANumber, Finite b) \<Rightarrow> False
              | (Finite a, NotANumber) \<Rightarrow> False
              | (Finite a, Finite b) \<Rightarrow> isclose a b (1 / 10 ^ 9) tol)))"

section \<open>Reporting a difference\<close>

text \<open>
  The format \<open>{:,.2f}\<close>: two decimals, ties to even, groups of three digits separated
  by commas, and the sign of a negative number kept even when it rounds to zero.
\<close>

definition digit_char :: "nat \<Rightarrow> char" where
  "digit_char d =
     (if d = 0 then CHR ''0'' else if d = 1 then CHR ''1'' else if d = 2 then CHR ''2''
      else if d = 3 then CHR ''3'' else if d = 4 then CHR ''4'' else if d = 5 then CHR ''5''
      else if d = 6 then CHR ''6'' else if d = 7 then CHR ''7'' else if d = 8 then CHR ''8''
      else CHR ''9'')"

fun dec_digits :: "nat \<Rightarrow> string" where
  "dec_digits n = (if n < 10 then [digit_char n]
                   else dec_digits (n div 10) @ [digit_char (n mod 10)])"

definition pad3 :: "nat \<Rightarrow> string" where
  "pad3 n = [digit_char (n div 100), digit_char ((n div 10) mod 10), digit_char (n mod 10)]"

fun thousands :: "nat \<Rightarrow> string" where
  "thousands n = (if n < 1000 then dec_digits n
                  else thousands (n div 1000) @ '','' @ pad3 (n mod 1000))"

definition round_half_even :: "rat \<Rightarrow> int" where
  "round_half_even x =
     (let f = \<lfloor>x\<rfloor>; d = x - of_int f
      in if d < 1 / 2 then f else if 1 / 2 < d then f + 1
         else if even f then f else f + 1)"

definition format_2f :: "rat \<Rightarrow> string" where
  "format_2f r =
     (let c = nat (round_half_even (\<bar>r\<bar> * 100))
      in (if r < 0 then ''-'' else []) @ thousands (c div 100) @ ''.'' @
         [digit_char ((c mod 100) div 10), digit_char (c mod 10)])"

definition calculate_difference :: "pylib \<Rightarrow> val \<Rightarrow> val \<Rightarrow> string" where
  "calculate_difference L val1 val2 =
     (case to_numeric L Raise val1 of
        Inl e \<Rightarrow> ''Text difference''
      | Inr num1 \<Rightarrow>
         (case to_numeric L Raise val2 of
            Inl e \<Rightarrow> ''Text difference''
          | Inr num2 \<Rightarrow>
             (case (num1, num2) of
                (Finite a, Finite b) \<Rightarrow> format_2f (a - b)
              | _ \<Rightarrow> ''N/A'')))"

section \<open>The categorical rule evaluator\<close>

text \<open>
  A categorical mapping; the keys read with \<open>mapping.get\<close> carry their defaults when the
  configuration leaves them out (\<open>''\<close>, \<open>None\<close>, \<open>False\<close>).
\<close>

record categorical_rule =
  cat_mls_col :: string
  cat_cama_col :: string
  mls_check_contains :: string
  cama_expected_if_true :: val
  cama_expected_if_false :: val
  case_sensitive :: bool

definition text_found :: "pylib \<Rightarrow> val \<Rightarrow> categorical_rule \<Rightarrow> bool" where
  "text_found L mls_val mapping =
     (let mls_str = (if notna mls_val then strip (py_str L mls_val) else [])
      in if \<not> case_sensitive mapping
         then contains (lower (mls_check_contains mapping)) (lower mls_str)
         else contains (mls_check_contains mapping) mls_str)"

definition expected_cama :: "pylib \<Rightarrow> val \<Rightarrow> categorical_rule \<Rightarrow> val" where
  "expected_cama L mls_val mapping =
     (if text_found L mls_val mapping then cama_expected_if_true mapping
      else cama_expected_if_false mapping)"

text \<open>
  \<open>categorical_match\<close>: both conversions run under \<open>errors='coerce'\<close>; the \<open>except\<close>
  branch compares the texts.
\<close>

definition categorical_match :: "pylib \<Rightarrow> rat \<Rightarrow> val \<Rightarrow> val \<Rightarrow> categorical_rule \<Rightarrow> bool" where
  "categorical_match L tol mls_val cama_val mapping =
     (let expected = expected_cama L mls_val mapping;
          fallback = (lower (strip (py_str L cama_val)) = lower (strip (py_str L expected)))
      in case to_numeric L Coerce cama_val of
           Inl e \<Rightarrow> fallback
         | Inr cama_numeric \<Rightarrow>
            (case to_numeric L Coerce expected of
               Inl e \<Rightarrow> fallback
             | Inr expected_numeric \<Rightarrow>
                (case (cama_numeric, expected_numeric) of
                   (NotANumber, NotANumber) \<Rightarrow> True
                 | (NotANumber, Finite b) \<Rightarrow> False
                 | (Finite a, NotANumber) \<Rightarrow> False
                 | (Finite a, Finite b) \<Rightarrow> isclose a b (1 / 10 ^ 9) tol)))"

section \<open>Tables and the merge on the key column\<close>

text \<open>
  A row is the list of its cells by column name; \<open>row.get(col, default)\<close> reads the first
  cell of that name. A table is its column names and its rows.
\<close>

type_synonym row = "(string \<times> val) list"

definition row_get :: "row \<Rightarrow> string \<Rightarrow> val \<Rightarrow> val" where
  "row_get r col dflt = (case map_of r col of Some v \<Rightarrow> v | None \<Rightarrow> dflt)"

record dataframe =
  columns :: "string list"
  rows :: "row list"

definition nan :: val where
  "nan = Number NotANumber"

text \<open>A cell that a row of an input table lacks reads as not-a-number.\<close>

definition cell :: "row \<Rightarrow> string \<Rightarrow> val" where
  "cell r c = row_get r c nan"

definition empty_df :: "dataframe \<Rightarrow> bool" where
  "empty_df df = (columns df = [] \<or> rows df = [])"

text \<open>\<open>df.rename(columns={old: new})\<close>\<close>

definition rename :: "dataframe \<Rightarrow> string \<Rightarrow> string \<Rightarrow> dataframe" where
  "rename df old new =
     \<lparr>columns = map (\<lambda>c. if c = old then new else c) (columns df),
      rows = map (map (\<lambda>(c, v). (if c = old then new else c, v))) (rows df)\<rparr>"

text \<open>
  \<open>pd.merge(left, right, on=key, how=...)\<close>. Rows pair up when their key cells are
  equal, every combination of equal keys giving one row; a column other than the key
  that both tables have is kept twice, under the suffixes \<open>_x\<close> and \<open>_y\<close>; with
  \<open>indicator=True\<close> the column \<open>_merge\<close> tells where a row comes from. The order in which
  pandas returns the rows (sorted by key for the outer merge) is not followed here: the
  rows of the left table come first, each with its partners, then the unmatched rows of
  the right table. pandas refuses tables whose key columns have incompatible types or
  that already hold a column \<open>_merge\<close>; such tables are outside this development.
\<close>

definition other_cols :: "dataframe \<Rightarrow> string \<Rightarrow> string list" where
  "other_cols df key = filter (\<lambda>c. c \<noteq> key) (columns df)"

definition lname :: "dataframe \<Rightarrow> string \<Rightarrow> string \<Rightarrow> string" where
  "lname right key c = (if c \<in> set (other_cols right key) then c @ ''_x'' else c)"

definition rname :: "dataframe \<Rightarrow> string \<Rightarrow> string \<Rightarrow> string" where
  "rname left key c = (if c \<in> set (other_cols left key) then c @ ''_y'' else c)"

definition lpart :: "dataframe \<Rightarrow> dataframe \<Rightarrow> string \<Rightarrow> (string \<Rightarrow> val) \<Rightarrow> row" where
  "lpart left right key f = map (\<lambda>c. (lname right key c, f c)) (other_cols left key)"

definition rpart :: "dataframe \<Rightarrow> dataframe \<Rightarrow> string \<Rightarrow> (string \<Rightarrow> val) \<Rightarrow> row" where
  "rpart left right key f = map (\<lambda>c. (rname left key c, f c)) (other_cols right key)"

definition partners :: "dataframe \<Rightarrow> string \<Rightarrow> val \<Rightarrow> row list" where
  "partners df key k = filter (\<lambda>r. cell r key = k) (rows df)"

definition merged_columns :: "dataframe \<Rightarrow> dataframe \<Rightarrow> string \<Rightarrow> string list" where
  "merged_columns left right key =
     key # map (lname right key) (other_cols left key) @
           map (rname left key) (other_cols right key)"

definition both_row :: "dataframe \<Rightarrow> dataframe \<Rightarrow> string \<Rightarrow> row \<Rightarrow> row \<Rightarrow> row" where
  "both_row left right key l r =
     (key, cell l key) # lpart left right key (cell l) @ rpart left right key (cell r)"

definition left_row :: "dataframe \<Rightarrow> dataframe \<Rightarrow> string \<Rightarrow> row \<Rightarrow> row" where
  "left_row left right key l =
     (key, cell l key) # lpart left right key (cell l) @ rpart left right key (\<lambda>c. nan)"

definition right_row :: "dataframe \<Rightarrow> dataframe \<Rightarrow> string \<Rightarrow> row \<Rightarrow> row" where
  "right_row left right key r =
     (key, cell r key) # lpart left right key (\<lambda>c. nan) @ rpart left right key (cell r)"

definition merge_inner :: "dataframe \<Rightarrow> dataframe \<Rightarrow> string \<Rightarrow> dataframe" where
  "merge_inner left right key =
     \<lparr>columns = merged_columns left right key,
      rows = concat (map (\<lambda>l. map (both_row left right key l)
                                  (partners right key (cell l key))) (rows left))\<rparr>"

definition indicator :: "string \<Rightarrow> row \<Rightarrow> row" where
  "indicator status r = r @ [(''_merge'', Str status)]"

definition merge_outer :: "dataframe \<Rightarrow> dataframe \<Rightarrow> string \<Rightarrow> dataframe" where
  "merge_outer left right key =
     \<lparr>columns = merged_columns left right key @ [''_merge''],
      rows =
        concat (map (\<lambda>l. if partners right key (cell l key) = []
                          then [indicator ''left_only'' (left_row left right key l)]
                          else map (\<lambda>r. indicator ''both'' (both_row left right key l r))
                                   (partners right key (cell l key)))
                    (rows left)) @
        map (\<lambda>r. indicator ''right_only'' (right_row left right key r))
            (filter (\<lambda>r. partners left key (cell r key) = []) (rows right))\<rparr>"

section \<open>Duplicate keys\<close>

text \<open>
  \<open>df.duplicated(subset=[id_column], keep=False)\<close> marks every row whose key cell occurs
  in another row too; asking for a column the table lacks raises \<open>KeyError\<close>.
  \<open>find_duplicate_ids\<close> returns the marked rows, and no row at all for an absent or
  empty table.
\<close>

definition duplicated :: "dataframe \<Rightarrow> string \<Rightarrow> py_error + bool list" where
  "duplicated df id_column =
     (if id_column \<notin> set (columns df) then Inl KeyError
      else Inr (map (\<lambda>r. 1 < length (partners df id_column (cell r id_column))) (rows df)))"

definition find_duplicate_ids :: "dataframe option \<Rightarrow> string \<Rightarrow> py_error + row list" where
  "find_duplicate_ids df id_column =
     (case df of
        None \<Rightarrow> Inr []
      | Some d \<Rightarrow>
         if empty_df d then Inr []
         else case duplicated d id_column of
                Inl e \<Rightarrow> Inl e
              | Inr marks \<Rightarrow> Inr (map fst (filter snd (zip (rows d) marks))))"

section \<open>The comparison engine\<close>

record direct_rule =
  mls_col :: string
  cama_col :: string

record sum_rule =
  sum_mls_col :: string
  cama_cols :: "string list"

record id_mapping =
  id_mls_col :: "string option"
  id_cama_col :: "string option"

text \<open>
  The cells copied into every report row of a matched record. The link built by
  \<open>format_zillow_url\<close> from the address is left out: it is not read by the comparison.
\<close>

record ident =
  NOPAR :: val
  ADDITIONAL_PARCELS :: val
  Listing_Number :: val
  SALEKEY :: val
  Address :: val
  City :: val
  State :: val
  Zip :: val

record mismatch =
  Parcel_ID :: val
  info :: ident
  Field_MLS :: string
  Field_CAMA :: string
  MLS_Value :: val
  CAMA_Value :: val
  Difference :: "string option"
  Expected_CAMA_Value :: "val option"
  Match_Rule :: "string option"

record perfect_match =
  pm_Parcel_ID :: val
  pm_info :: ident
  Fields_Compared :: nat
  Fields_List :: string

record missing_cama =
  mc_Parcel_ID :: val
  mc_Listing_Number :: val
  mc_Closed_Date :: val

text \<open>The two lists kept while one matched record is compared.\<close>

record rec_state =
  record_mismatches :: "mismatch list"
  fields_compared :: "string list"

definition is_blank :: "val \<Rightarrow> bool" where
  "is_blank v = (isna v \<or> (case v of Str s \<Rightarrow> strip s = [] | _ \<Rightarrow> False))"

definition is_zero :: "number \<Rightarrow> bool" where
  "is_zero n = (\<not> isnan n \<and> n = Finite 0)"

fun num_add :: "number \<Rightarrow> number \<Rightarrow> number" where
  "num_add (Finite a) (Finite b) = Finite (a + b)"
| "num_add _ _ = NotANumber"

fun join :: "string \<Rightarrow> string list \<Rightarrow> string" where
  "join sep [] = []"
| "join sep [x] = x"
| "join sep (x # y # ys) = x @ sep @ join sep (y # ys)"

definition get_ident :: "row \<Rightarrow> ident" where
  "get_ident r =
     \<lparr>NOPAR = row_get r ''NOPAR'' (Str []),
      ADDITIONAL_PARCELS = row_get r ''ADDITIONAL_PARCELS'' (Str []),
      Listing_Number = row_get r ''Listing #'' (Str []),
      SALEKEY = row_get r ''SALEKEY'' (Str []),
      Address = row_get r ''Address'' (Str []),
      City = row_get r ''City'' (Str []),
      State = row_get r ''State or Province'' (Str []),
      Zip = row_get r ''Postal Code'' (Str [])\<rparr>"

text \<open>
  One pass of the loop over the one-to-one mappings. \<open>skip\<close> is the module constant
  \<open>SKIP_ZERO_VALUES\<close>, \<open>cols\<close> the columns of the merged table.
\<close>

definition direct_zero :: "pylib \<Rightarrow> val \<Rightarrow> val \<Rightarrow> bool" where
  "direct_zero L mls_val cama_val =
     (case to_numeric L Coerce mls_val of
        Inl e \<Rightarrow> False
      | Inr mls_numeric \<Rightarrow>
         (case to_numeric L Coerce cama_val of
            Inl e \<Rightarrow> False
          | Inr cama_numeric \<Rightarrow> is_zero mls_numeric \<or> is_zero cama_numeric))"

definition compare_direct ::
  "pylib \<Rightarrow> rat \<Rightarrow> bool \<Rightarrow> string list \<Rightarrow> row \<Rightarrow> val \<Rightarrow> rec_state \<Rightarrow> direct_rule \<Rightarrow> rec_state" where
  "compare_direct L tol skip cols r record_id st mapping =
     (if mls_col mapping \<notin> set cols \<or> cama_col mapping \<notin> set cols then st
      else let mls_val = row_get r (mls_col mapping) PyNone;
               cama_val = row_get r (cama_col mapping) PyNone
           in if is_blank mls_val \<or> is_blank cama_val then st
              else let st' = st\<lparr>fields_compared := fields_compared st @ [mls_col mapping]\<rparr>
                   in if skip \<and> direct_zero L mls_val cama_val then st'
                      else if \<not> values_equal L tol mls_val cama_val
                      then st'\<lparr>record_mismatches := record_mismatches st' @
                             [\<lparr>Parcel_ID = record_id, info = get_ident r,
                               Field_MLS = mls_col mapping, Field_CAMA = cama_col mapping,
                               MLS_Value = mls_val, CAMA_Value = cama_val,
                               Difference = Some (calculate_difference L mls_val cama_val),
                               Expected_CAMA_Value = None, Match_Rule = None\<rparr>]\<rparr>
                      else st')"

text \<open>The inner loop of a sum mapping: the running sum and the flag \<open>all_cama_blank\<close>.\<close>

fun sum_cama :: "pylib \<Rightarrow> row \<Rightarrow> string list \<Rightarrow> number \<times> bool \<Rightarrow> number \<times> bool" where
  "sum_cama L r [] acc = acc"
| "sum_cama L r (col # cs) (cama_sum, all_cama_blank) =
     (let v = row_get r col PyNone
      in if notna v
         then sum_cama L r cs
                (case to_numeric L Coerce v of
                   Inl e \<Rightarrow> cama_sum
                 | Inr n \<Rightarrow> num_add cama_sum n, False)
         else sum_cama L r cs (cama_sum, all_cama_blank))"

definition sum_zero :: "pylib \<Rightarrow> val \<Rightarrow> number \<Rightarrow> bool" where
  "sum_zero L mls_val cama_sum =
     (case to_numeric L Coerce mls_val of
        Inl e \<Rightarrow> False
      | Inr mls_numeric \<Rightarrow> is_zero mls_numeric \<or> cama_sum = Finite 0)"

definition compare_sum ::
  "pylib \<Rightarrow> rat \<Rightarrow> bool \<Rightarrow> string list \<Rightarrow> row \<Rightarrow> val \<Rightarrow> rec_state \<Rightarrow> sum_rule \<Rightarrow> rec_state" where
  "compare_sum L tol skip cols r record_id st mapping =
     (if sum_mls_col mapping \<notin> set cols then st
      else if filter (\<lambda>c. c \<notin> set cols) (cama_cols mapping) \<noteq> [] then st
      else let mls_val = row_get r (sum_mls_col mapping) PyNone
           in if is_blank mls_val then st
              else case sum_cama L r (cama_cols mapping) (Finite 0, True) of
                (cama_sum, all_cama_blank) \<Rightarrow>
                  if all_cama_blank then st
                  else let st' = st\<lparr>fields_compared := fields_compared st @ [sum_mls_col mapping]\<rparr>
                       in if skip \<and> sum_zero L mls_val cama_sum then st'
                          else if \<not> values_equal L tol mls_val (Number cama_sum)
                          then st'\<lparr>record_mismatches := record_mismatches st' @
                                 [\<lparr>Parcel_ID = record_id, info = get_ident r,
                                   Field_MLS = sum_mls_col mapping,
                                   Field_CAMA = ''SUM('' @ join '', '' (cama_cols mapping) @ '')'',
                                   MLS_Value = mls_val, CAMA_Value = Number cama_sum,
                                   Difference =
                                     Some (calculate_difference L mls_val (Number cama_sum)),
                                   Expected_CAMA_Value = None, Match_Rule = None\<rparr>]\<rparr>
                          else st')"

definition match_rule_text :: "pylib \<Rightarrow> categorical_rule \<Rightarrow> string" where
  "match_rule_text L mapping =
     ''If '' @ [CHR 0x27] @ mls_check_contains mapping @ [CHR 0x27] @ '' in '' @
     cat_mls_col mapping @ '', then '' @ cat_cama_col mapping @ '' should be '' @
     py_str L (cama_expected_if_true mapping) @ '', else '' @
     py_str L (cama_expected_if_false mapping)"

definition compare_categorical ::
  "pylib \<Rightarrow> rat \<Rightarrow> string list \<Rightarrow> row \<Rightarrow> val \<Rightarrow> rec_state \<Rightarrow> categorical_rule \<Rightarrow> rec_state" where
  "compare_categorical L tol cols r record_id st mapping =
     (if cat_mls_col mapping \<notin> set cols then st
      else if cat_cama_col mapping \<notin> set cols then st
      else let mls_val = row_get r (cat_mls_col mapping) PyNone;
               cama_val = row_get r (cat_cama_col mapping) PyNone
           in if is_blank mls_val then st
              else if is_blank cama_val then st
              else let st' = st\<lparr>fields_compared := fields_compared st @ [cat_mls_col mapping]\<rparr>
                   in if \<not> categorical_match L tol mls_val cama_val mapping
                      then st'\<lparr>record_mismatches := record_mismatches st' @
                             [\<lparr>Parcel_ID = record_id, info = get_ident r,
                               Field_MLS = cat_mls_col mapping,
                               Field_CAMA = cat_cama_col mapping,
                               MLS_Value = mls_val, CAMA_Value = cama_val,
                               Difference = None,
                               Expected_CAMA_Value = Some (expected_cama L mls_val mapping),
                               Match_Rule = Some (match_rule_text L mapping)\<rparr>]\<rparr>
                      else st')"

text \<open>
  A matched record: the three loops in turn, an absent or empty list of sum or
  categorical mappings giving no pass at all.
\<close>

definition compare_record ::
  "pylib \<Rightarrow> rat \<Rightarrow> bool \<Rightarrow> string list \<Rightarrow> row \<Rightarrow> val \<Rightarrow>
   direct_rule list \<Rightarrow> sum_rule list \<Rightarrow> categorical_rule list \<Rightarrow> rec_state" where
  "compare_record L tol skip cols r record_id cols_mapping cols_sum cols_categorical =
     foldl (compare_categorical L tol cols r record_id)
       (foldl (compare_sum L tol skip cols r record_id)
          (foldl (compare_direct L tol skip cols r record_id)
             \<lparr>record_mismatches = [], fields_compared = []\<rparr> cols_mapping)
          cols_sum)
       cols_categorical"

record tables =
  missing_in_cama :: "missing_cama list"
  missing_in_mls :: "val list"
  value_mismatches :: "mismatch list"
  perfect_matches :: "perfect_match list"

definition no_tables :: tables where
  "no_tables = \<lparr>missing_in_cama = [], missing_in_mls = [], value_mismatches = [],
                 perfect_matches = []\<rparr>"

text \<open>The body of the loop over the rows of the outer merge.\<close>

definition process_row ::
  "pylib \<Rightarrow> rat \<Rightarrow> bool \<Rightarrow> string list \<Rightarrow> string \<Rightarrow>
   direct_rule list \<Rightarrow> sum_rule list \<Rightarrow> categorical_rule list \<Rightarrow> tables \<Rightarrow> row \<Rightarrow> tables" where
  "process_row L tol skip cols key cols_mapping cols_sum cols_categorical acc r =
     (let record_id = row_get r key PyNone;
          merge_status = row_get r ''_merge'' PyNone
      in if merge_status = Str ''left_only''
         then acc\<lparr>missing_in_cama := missing_in_cama acc @
                [\<lparr>mc_Parcel_ID = record_id,
                  mc_Listing_Number = row_get r ''Listing #'' (Str []),
                  mc_Closed_Date = row_get r ''Closed Date'' (Str [])\<rparr>]\<rparr>
         else if merge_status = Str ''right_only''
         then acc\<lparr>missing_in_mls := missing_in_mls acc @ [record_id]\<rparr>
         else if merge_status = Str ''both''
         then let st = compare_record L tol skip cols r record_id cols_mapping cols_sum cols_categorical;
                  acc' = (if record_mismatches st = [] \<and> fields_compared st \<noteq> []
                          then acc\<lparr>perfect_matches := perfect_matches acc @
                                 [\<lparr>pm_Parcel_ID = record_id, pm_info = get_ident r,
                                   Fields_Compared = length (fields_compared st),
                                   Fields_List = join '', '' (fields_compared st)\<rparr>]\<rparr>
                          else acc)
              in acc'\<lparr>value_mismatches := value_mismatches acc' @ record_mismatches st\<rparr>
         else acc)"

text \<open>
  \<open>compare_data_enhanced\<close>. Each early return of the source prints its message and hands
  back five empty tables; here it is the left injection with the reason. The debug
  listing prints only and is left out.
\<close>

datatype abort = MissingDataframe | EmptyMapping | IncompleteIdMapping
  | MlsIdNotFound | CamaIdNotFound

record outcome =
  result :: tables
  matched_df :: dataframe

definition compare_data_enhanced ::
  "pylib \<Rightarrow> rat \<Rightarrow> bool \<Rightarrow> dataframe option \<Rightarrow> dataframe option \<Rightarrow> id_mapping \<Rightarrow>
   direct_rule list \<Rightarrow> sum_rule list \<Rightarrow> categorical_rule list \<Rightarrow> abort + outcome" where
  "compare_data_enhanced L tol skip df_mls df_cama unique_id_col cols_mapping cols_sum cols_categorical =
     (case (df_mls, df_cama) of
        (Some mls, Some cama) \<Rightarrow>
          if cols_mapping = [] then Inl EmptyMapping
          else (case (id_mls_col unique_id_col, id_cama_col unique_id_col) of
                  (Some mls_id, Some cama_id) \<Rightarrow>
                    if mls_id \<notin> set (columns mls) then Inl MlsIdNotFound
                    else if cama_id \<notin> set (columns cama) then Inl CamaIdNotFound
                    else let renamed = rename mls mls_id cama_id;
                             merged_df = merge_outer renamed cama cama_id
                         in Inr \<lparr>result = foldl (process_row L tol skip (columns merged_df)
                                                   cama_id cols_mapping cols_sum cols_categorical)
                                                no_tables (rows merged_df),
                                 matched_df = merge_inner renamed cama cama_id\<rparr>
                | _ \<Rightarrow> Inl IncompleteIdMapping)
      | _ \<Rightarrow> Inl MissingDataframe)"

text \<open>
  The main program after loading: the checks on the key columns, the two duplicate
  reports, then the comparison. The configuration constants of the module are the
  parameters.
\<close>

datatype main_result = LoadFailed | KeyMessage | Crashed py_error
  | Ran "row list" "row list" "abort + outcome"

definition main_steps ::
  "pylib \<Rightarrow> rat \<Rightarrow> bool \<Rightarrow> dataframe option \<Rightarrow> dataframe option \<Rightarrow> id_mapping \<Rightarrow>
   direct_rule list \<Rightarrow> sum_rule list \<Rightarrow> categorical_rule list \<Rightarrow> main_result" where
  "main_steps L tol skip mls_data cama_data unique_id_col cols_mapping cols_sum cols_categorical =
     (case (mls_data, cama_data) of
        (Some mls, Some cama) \<Rightarrow>
          (case (id_mls_col unique_id_col, id_cama_col unique_id_col) of
             (Some mls_id, Some cama_id) \<Rightarrow>
               if mls_id \<notin> set (columns mls) then KeyMessage
               else if cama_id \<notin> set (columns cama) then KeyMessage
               else (case find_duplicate_ids mls_data mls_id of
                       Inl e \<Rightarrow> Crashed e
                     | Inr dup_mls \<Rightarrow>
                        (case find_duplicate_ids cama_data cama_id of
                           Inl e \<Rightarrow> Crashed e
                         | Inr dup_cama \<Rightarrow>
                             Ran dup_mls dup_cama
                               (compare_data_enhanced L tol skip mls_data cama_data
                                  unique_id_col cols_mapping cols_sum cols_categorical)))
           | _ \<Rightarrow> KeyMessage)
      | _ \<Rightarrow> LoadFailed)"

section \<open>Sample inputs\<close>

text \<open>A library in which no text is a numeral, used to run the program on sample data.\<close>

definition plain_lib :: pylib where
  "plain_lib = \<lparr>floatify = (\<lambda>s. None), str_of_num = (\<lambda>r. ''#'')\<rparr>"

text \<open>
  The sum mapping of the module's configuration, and a matched row of the merged table
  holding the cell of the listing side and the three cells of the assessment side.
\<close>

definition below_grade :: sum_rule where
  "below_grade = \<lparr>sum_mls_col = ''Below Grade Finished Area'',
                    cama_cols = [''RECROMAREA'', ''FINBSMTAREA'', ''UFEATAREA'']\<rparr>"

definition sum_cols :: "string list" where
  "sum_cols = [''PARID'', ''Below Grade Finished Area'', ''RECROMAREA'', ''FINBSMTAREA'',
               ''UFEATAREA'', ''_merge'']"

definition sum_row :: "val \<Rightarrow> val \<Rightarrow> val \<Rightarrow> val \<Rightarrow> row" where
  "sum_row a b1 b2 b3 =
     [(''PARID'', Str ''P1''), (''Below Grade Finished Area'', a), (''RECROMAREA'', b1),
      (''FINBSMTAREA'', b2), (''UFEATAREA'', b3), (''_merge'', Str ''both'')]"

definition fresh :: rec_state where
  "fresh = \<lparr>record_mismatches = [], fields_compared = []\<rparr>"

definition no_ident :: ident where
  "no_ident = \<lparr>NOPAR = Str [], ADDITIONAL_PARCELS = Str [], Listing_Number = Str [],
                SALEKEY = Str [], Address = Str [], City = Str [], State = Str [],
                Zip = Str []\<rparr>"

text \<open>
  A one-to-one mapping with a matched row of the merged table, the two tables that merge
  into that row, and a categorical mapping whose expected values are texts.
\<close>

definition bedrooms :: direct_rule where
  "bedrooms = \<lparr>mls_col = ''Bedrooms Total'', cama_col = ''RMBED''\<rparr>"

definition direct_cols :: "string list" where
  "direct_cols = [''PARID'', ''Bedrooms Total'', ''RMBED'', ''_merge'']"

definition direct_row :: "val \<Rightarrow> val \<Rightarrow> row" where
  "direct_row a b = [(''PARID'', Str ''P1''), (''Bedrooms Total'', a), (''RMBED'', b),
                     (''_merge'', Str ''both'')]"

definition sample_ids :: id_mapping where
  "sample_ids = \<lparr>id_mls_col = Some ''Parcel Number'', id_cama_col = Some ''PARID''\<rparr>"

definition mls_table :: "val \<Rightarrow> dataframe" where
  "mls_table a = \<lparr>columns = [''Parcel Number'', ''Bedrooms Total''],
     rows = [[(''Parcel Number'', Str ''P1''), (''Bedrooms Total'', a)]]\<rparr>"

definition cama_table :: "val \<Rightarrow> dataframe" where
  "cama_table b = \<lparr>columns = [''PARID'', ''RMBED''],
     rows = [[(''PARID'', Str ''P1''), (''RMBED'', b)]]\<rparr>"

definition cooling_codes :: categorical_rule where
  "cooling_codes = \<lparr>cat_mls_col = ''Cooling'', cat_cama_col = ''HEAT'',
     mls_check_contains = ''Central Air'', cama_expected_if_true = Str ''yes'',
     cama_expected_if_false = Str ''no'', case_sensitive = False\<rparr>"

text \<open>
  A one-to-one mapping on columns that neither table has, and a table in which the key
  \<open>P1\<close> occurs twice.
\<close>

definition garage :: direct_rule where
  "garage = \<lparr>mls_col = ''Garage Spaces'', cama_col = ''GARAGE''\<rparr>"

definition twice :: dataframe where
  "twice = \<lparr>columns = [''PARID'', ''RMBED''],
     rows = [[(''PARID'', Str ''P1''), (''RMBED'', Number (Finite 3))],
             [(''PARID'', Str ''P2''), (''RMBED'', Number (Finite 2))],
             [(''PARID'', Str ''P1''), (''RMBED'', Number (Finite 4))]]\<rparr>"

text \<open>
  The rows whose key occurs in more than one row of the table, in the words of the claim
  on duplicates: row \<open>i\<close> is kept when some other row \<open>j\<close> has the same key cell.
\<close>

definition repeated_key_rows :: "dataframe \<Rightarrow> string \<Rightarrow> row list" where
  "repeated_key_rows df c =
     map (nth (rows df))
       (filter (\<lambda>i. \<exists>j \<in> set [0..<length (rows df)].
                       j \<noteq> i \<and> cell (rows df ! j) c = cell (rows df ! i) c)
          [0..<length (rows df)])"

section \<open>Outcome buckets\<close>

text \<open>
  The outcome of one row of the outer merge is what the loop body adds to empty tables.
  A row lies in a bucket when it adds to the table of that bucket, and is skipped when it
  adds nothing. The keys of a table are its key cells.
\<close>

datatype bucket = MissingInB | MissingInA | Mismatched | PerfectMatch | Skipped

definition contribution ::
  "pylib \<Rightarrow> rat \<Rightarrow> bool \<Rightarrow> string list \<Rightarrow> string \<Rightarrow>
   direct_rule list \<Rightarrow> sum_rule list \<Rightarrow> categorical_rule list \<Rightarrow> row \<Rightarrow> tables" where
  "contribution L tol skip cols key cols_mapping cols_sum cols_categorical r =
     process_row L tol skip cols key cols_mapping cols_sum cols_categorical no_tables r"

fun in_bucket :: "tables \<Rightarrow> bucket \<Rightarrow> bool" where
  "in_bucket t MissingInB = (missing_in_cama t \<noteq> [])"
| "in_bucket t MissingInA = (missing_in_mls t \<noteq> [])"
| "in_bucket t Mismatched = (value_mismatches t \<noteq> [])"
| "in_bucket t PerfectMatch = (perfect_matches t \<noteq> [])"
| "in_bucket t Skipped = (t = no_tables)"

definition keys_of :: "dataframe \<Rightarrow> string \<Rightarrow> val set" where
  "keys_of df c = (\<lambda>r. cell r c) ` set (rows df)"

definition append_tables :: "tables \<Rightarrow> tables \<Rightarrow> tables" where
  "append_tables t u =
     \<lparr>missing_in_cama = missing_in_cama t @ missing_in_cama u,
      missing_in_mls = missing_in_mls t @ missing_in_mls u,
      value_mismatches = value_mismatches t @ value_mismatches u,
      perfect_matches = perfect_matches t @ perfect_matches u\<rparr>"

text \<open>
  The state of a record in which a mismatch is only recorded next to a field that was
  marked as compared.
\<close>

definition marked :: "rec_state \<Rightarrow> bool" where
  "marked st = (record_mismatches st = [] \<or> fields_compared st \<noteq> [])"

text \<open>Two tables that share the key \<open>P1\<close> and have one key each of their own.\<close>

definition two_listings :: dataframe where
  "two_listings = \<lparr>columns = [''Parcel Number'', ''Bedrooms Total''],
     rows = [[(''Parcel Number'', Str ''P1''), (''Bedrooms Total'', Number (Finite 3))],
             [(''Parcel Number'', Str ''P2''), (''Bedrooms Total'', Number (Finite 2))]]\<rparr>"

definition two_parcels :: dataframe where
  "two_parcels = \<lparr>columns = [''PARID'', ''RMBED''],
     rows = [[(''PARID'', Str ''P1''), (''RMBED'', Number (Finite 4))],
             [(''PARID'', Str ''P3''), (''RMBED'', Number (Finite 1))]]\<rparr>"

section \<open>Properties of the value comparator\<close>

lemma to_numeric_coerce_total: "\<exists>n. to_numeric L Coerce v = Inr n"
  by (cases v) (auto split: option.splits)

text \<open>
  Claim C3, as the program has it. When both values convert to numbers that are not
  not-a-number, the comparator answers the test of \<open>np.isclose\<close>:
  \<open>|a - b| \<le> tolerance + 1e-9 * |b|\<close>, the relative part being scaled by the second value
  alone, or the two numbers are the same. For a tolerance that is not negative, as the
  0.01 of the module, the first test alone decides.
\<close>

theorem values_equal_numeric:
  assumes "to_numeric L Raise v1 = Inr (Finite a)"
    and "to_numeric L Raise v2 = Inr (Finite b)"
  shows "(values_equal L tol v1 v2 \<longleftrightarrow> \<bar>a - b\<bar> \<le> tol + (1 / 10 ^ 9) * \<bar>b\<bar> \<or> a = b)
         \<and> (0 \<le> tol \<longrightarrow>
              (values_equal L tol v1 v2 \<longleftrightarrow> \<bar>a - b\<bar> \<le> tol + (1 / 10 ^ 9) * \<bar>b\<bar>))
         \<and> NUMERIC_TOLERANCE = 1 / 100
         \<and> (values_equal L NUMERIC_TOLERANCE v1 v2
              \<longleftrightarrow> \<bar>a - b\<bar> \<le> NUMERIC_TOLERANCE + (1 / 10 ^ 9) * \<bar>b\<bar>)"
  using assms by (auto simp: values_equal_def isclose_def NUMERIC_TOLERANCE_def)

theorem values_equal_numeric_witness:
  "to_numeric plain_lib Raise (Number (Finite 100)) = Inr (Finite 100)
   \<and> to_numeric plain_lib Raise (Number (Finite (10002 / 100))) = Inr (Finite (10002 / 100))
   \<and> \<not> values_equal plain_lib (1 / 100) (Number (Finite 100)) (Number (Finite (10002 / 100)))
   \<and> values_equal plain_lib (1 / 100) (Number (Finite 100)) (Number (Finite (10001 / 100)))"
proof -
  have h: "to_numeric plain_lib Raise (Number (Finite 100)) = Inr (Finite 100)"
    "to_numeric plain_lib Raise (Number (Finite (10002 / 100))) = Inr (Finite (10002 / 100))"
    "to_numeric plain_lib Raise (Number (Finite (10001 / 100))) = Inr (Finite (10001 / 100))"
    by simp_all
  have "values_equal plain_lib (1 / 100) (Number (Finite 100)) (Number (Finite (10002 / 100)))
        \<longleftrightarrow> \<bar>100 - 10002 / 100\<bar> \<le> 1 / 100 + (1 / 10 ^ 9) * \<bar>10002 / 100 :: rat\<bar>
            \<or> (100 :: rat) = 10002 / 100"
    using values_equal_numeric [OF h(1) h(2), of "1 / 100"] by (rule conjunct1)
  then have far: "\<not> values_equal plain_lib (1 / 100) (Number (Finite 100))
      (Number (Finite (10002 / 100)))"
    by simp
  have "values_equal plain_lib (1 / 100) (Number (Finite 100)) (Number (Finite (10001 / 100)))
        \<longleftrightarrow> \<bar>100 - 10001 / 100\<bar> \<le> 1 / 100 + (1 / 10 ^ 9) * \<bar>10001 / 100 :: rat\<bar>
            \<or> (100 :: rat) = 10001 / 100"
    using values_equal_numeric [OF h(1) h(3), of "1 / 100"] by (rule conjunct1)
  then have near: "values_equal plain_lib (1 / 100) (Number (Finite 100))
      (Number (Finite (10001 / 100)))"
    by simp
  from h far near show ?thesis by blast
qed

text \<open>
  With the larger of the two magnitudes in the relative part, as C3 states the test, the
  values 0.010000000005 and 0 would be equal; the program finds them different.
\<close>

theorem values_equal_max_counterexample:
  "\<not> (values_equal plain_lib NUMERIC_TOLERANCE
          (Number (Finite (10000000005 / 10 ^ 12))) (Number (Finite 0))
        \<longleftrightarrow> \<bar>10000000005 / 10 ^ 12 - (0::rat)\<bar>
             \<le> NUMERIC_TOLERANCE + (1 / 10 ^ 9) * max (\<bar>10000000005 / 10 ^ 12\<bar>) (\<bar>0::rat\<bar>))"
  by (simp add: values_equal_def isclose_def NUMERIC_TOLERANCE_def)

lemma isclose_refl: "isclose a a rtol atol"
  by (simp add: isclose_def)

lemma isclose_swap:
  "isclose p q (1 / 10 ^ 9) tol = isclose q p (1 / 10 ^ 9) tol \<longleftrightarrow>
     p = q \<or> \<not> (tol + (1 / 10 ^ 9) * min (\<bar>p\<bar>) (\<bar>q\<bar>) < \<bar>p - q\<bar>
              \<and> \<bar>p - q\<bar> \<le> tol + (1 / 10 ^ 9) * max (\<bar>p\<bar>) (\<bar>q\<bar>))"
proof (cases "p = q")
  case True
  then show ?thesis by (simp add: isclose_def)
next
  case False
  have sw: "\<bar>q - p\<bar> = \<bar>p - q\<bar>" by (rule abs_minus_commute)
  show ?thesis
  proof (cases "\<bar>p\<bar> \<le> \<bar>q\<bar>")
    case True
    then have m: "min (\<bar>p\<bar>) (\<bar>q\<bar>) = \<bar>p\<bar>" "max (\<bar>p\<bar>) (\<bar>q\<bar>) = \<bar>q\<bar>" by simp_all
    have "(1 / 10 ^ 9) * \<bar>p\<bar> \<le> (1 / 10 ^ 9) * \<bar>q\<bar>"
      using True by (intro mult_left_mono) simp_all
    then show ?thesis
      using False unfolding isclose_def sw m by auto
  next
    case False
    then have m: "min (\<bar>p\<bar>) (\<bar>q\<bar>) = \<bar>q\<bar>" "max (\<bar>p\<bar>) (\<bar>q\<bar>) = \<bar>p\<bar>" by simp_all
    have "(1 / 10 ^ 9) * \<bar>q\<bar> \<le> (1 / 10 ^ 9) * \<bar>p\<bar>"
      using False by (intro mult_left_mono) simp_all
    then show ?thesis
      using \<open>p \<noteq> q\<close> unfolding isclose_def sw m by auto
  qed
qed

text \<open>
  Claim C8, as the program has it. The comparator is reflexive for every value and every
  tolerance. It is symmetric for every tolerance and every two values but for one case:
  when both convert to numbers, the two orders agree exactly when the numbers are the
  same or \<open>|a - b|\<close> lies outside the band above
  \<open>tolerance + 1e-9 * min(|a|,|b|)\<close> and up to \<open>tolerance + 1e-9 * max(|a|,|b|)\<close>.
\<close>

theorem values_equal_reflexive_symmetric:
  "values_equal L tol x x
   \<and> ((\<forall>p q. to_numeric L Raise a = Inr (Finite p) \<longrightarrow>
              to_numeric L Raise b = Inr (Finite q) \<longrightarrow>
              p = q \<or> \<not> (tol + (1 / 10 ^ 9) * min (\<bar>p\<bar>) (\<bar>q\<bar>) < \<bar>p - q\<bar>
                        \<and> \<bar>p - q\<bar> \<le> tol + (1 / 10 ^ 9) * max (\<bar>p\<bar>) (\<bar>q\<bar>)))
       \<longrightarrow> values_equal L tol a b = values_equal L tol b a)
   \<and> (to_numeric L Raise c = Inr (Finite u) \<and> to_numeric L Raise d = Inr (Finite w)
       \<longrightarrow> (values_equal L tol c d = values_equal L tol d c
            \<longleftrightarrow> u = w \<or> \<not> (tol + (1 / 10 ^ 9) * min (\<bar>u\<bar>) (\<bar>w\<bar>) < \<bar>u - w\<bar>
                          \<and> \<bar>u - w\<bar> \<le> tol + (1 / 10 ^ 9) * max (\<bar>u\<bar>) (\<bar>w\<bar>))))"
proof (intro conjI impI)
  show "values_equal L tol x x"
    by (auto simp: values_equal_def isclose_refl split: sum.splits number.splits)
next
  assume h: "\<forall>p q. to_numeric L Raise a = Inr (Finite p) \<longrightarrow>
              to_numeric L Raise b = Inr (Finite q) \<longrightarrow>
              p = q \<or> \<not> (tol + (1 / 10 ^ 9) * min (\<bar>p\<bar>) (\<bar>q\<bar>) < \<bar>p - q\<bar>
                        \<and> \<bar>p - q\<bar> \<le> tol + (1 / 10 ^ 9) * max (\<bar>p\<bar>) (\<bar>q\<bar>))"
  show "values_equal L tol a b = values_equal L tol b a"
  proof (cases "\<exists>p q. to_numeric L Raise a = Inr (Finite p) \<and> to_numeric L Raise b = Inr (Finite q)")
    case True
    then obtain p q where pq: "to_numeric L Raise a = Inr (Finite p)"
      "to_numeric L Raise b = Inr (Finite q)" by blast
    with h have "isclose p q (1 / 10 ^ 9) tol = isclose q p (1 / 10 ^ 9) tol"
      unfolding isclose_swap by blast
    with pq show ?thesis by (simp add: values_equal_def)
  next
    case False
    then show ?thesis
      by (auto simp: values_equal_def split: sum.splits number.splits)
  qed
next
  assume "to_numeric L Raise c = Inr (Finite u) \<and> to_numeric L Raise d = Inr (Finite w)"
  then have "values_equal L tol c d = isclose u w (1 / 10 ^ 9) tol"
    "values_equal L tol d c = isclose w u (1 / 10 ^ 9) tol"
    by (simp_all add: values_equal_def)
  then show "values_equal L tol c d = values_equal L tol d c
            \<longleftrightarrow> u = w \<or> \<not> (tol + (1 / 10 ^ 9) * min (\<bar>u\<bar>) (\<bar>w\<bar>) < \<bar>u - w\<bar>
                          \<and> \<bar>u - w\<bar> \<le> tol + (1 / 10 ^ 9) * max (\<bar>u\<bar>) (\<bar>w\<bar>))"
    by (simp only: isclose_swap)
qed

theorem values_equal_reflexive_symmetric_witness:
  "values_equal plain_lib (- 1) (Number (Finite 0)) (Number (Finite 0))
   \<and> values_equal plain_lib (1 / 100) (Str ''Yes'') (Str ''Yes'')
   \<and> values_equal plain_lib (1 / 100) (Str ''Yes'') (Number (Finite 3))
       = values_equal plain_lib (1 / 100) (Number (Finite 3)) (Str ''Yes'')
   \<and> values_equal plain_lib (1 / 100) (Number (Finite 3)) (Number (Finite 4))
       = values_equal plain_lib (1 / 100) (Number (Finite 4)) (Number (Finite 3))"
proof -
  note neg = values_equal_reflexive_symmetric
      [where L = plain_lib and tol = "- 1" and x = "Number (Finite 0)"
         and a = "Str ''Yes''" and b = "Number (Finite 3)"
         and c = "Number (Finite 3)" and u = 3 and d = "Number (Finite 4)" and w = 4]
  note pos = values_equal_reflexive_symmetric
      [where L = plain_lib and tol = "1 / 100" and x = "Str ''Yes''"
         and a = "Str ''Yes''" and b = "Number (Finite 3)"
         and c = "Number (Finite 3)" and u = 3 and d = "Number (Finite 4)" and w = 4]
  have r0: "values_equal plain_lib (- 1) (Number (Finite 0)) (Number (Finite 0))"
    using neg by (rule conjunct1)
  have r1: "values_equal plain_lib (1 / 100) (Str ''Yes'') (Str ''Yes'')"
    using pos by (rule conjunct1)
  have n: "to_numeric plain_lib Raise (Str ''Yes'') = Inl ValueError"
    by (simp add: plain_lib_def)
  have text_side: "\<forall>p q. to_numeric plain_lib Raise (Str ''Yes'') = Inr (Finite p) \<longrightarrow>
      to_numeric plain_lib Raise (Number (Finite 3)) = Inr (Finite q) \<longrightarrow>
      p = q \<or> \<not> (1 / 100 + (1 / 10 ^ 9) * min (\<bar>p\<bar>) (\<bar>q\<bar>) < \<bar>p - q\<bar>
                \<and> \<bar>p - q\<bar> \<le> 1 / 100 + (1 / 10 ^ 9) * max (\<bar>p\<bar>) (\<bar>q\<bar>))"
    unfolding n by simp
  have s1: "values_equal plain_lib (1 / 100) (Str ''Yes'') (Number (Finite 3))
       = values_equal plain_lib (1 / 100) (Number (Finite 3)) (Str ''Yes'')"
    using pos text_side by blast
  have nums: "to_numeric plain_lib Raise (Number (Finite 3)) = Inr (Finite 3)
      \<and> to_numeric plain_lib Raise (Number (Finite 4)) = Inr (Finite 4)"
    by simp
  have outside: "(3 :: rat) = 4
      \<or> \<not> (1 / 100 + (1 / 10 ^ 9) * min (\<bar>3 :: rat\<bar>) (\<bar>4\<bar>) < \<bar>3 - 4\<bar>
           \<and> \<bar>3 - 4 :: rat\<bar> \<le> 1 / 100 + (1 / 10 ^ 9) * max (\<bar>3\<bar>) (\<bar>4\<bar>))"
    by simp
  have s2: "values_equal plain_lib (1 / 100) (Number (Finite 3)) (Number (Finite 4))
       = values_equal plain_lib (1 / 100) (Number (Finite 4)) (Number (Finite 3))"
    using pos nums outside by blast
  from r0 r1 s1 s2 show ?thesis by blast
qed

text \<open>Symmetry fails between 0.010000000005 and 0 at the tolerance 0.01.\<close>

theorem values_equal_symmetry_counterexample:
  "\<not> (values_equal plain_lib (1 / 100) (Number (Finite (10000000005 / 10 ^ 12)))
          (Number (Finite 0))
        = values_equal plain_lib (1 / 100) (Number (Finite 0))
            (Number (Finite (10000000005 / 10 ^ 12))))"
  by (simp add: values_equal_def isclose_def)

section \<open>Properties of the sum mappings\<close>

lemma to_numeric_raise_coerce:
  "to_numeric L Raise v = Inr n \<Longrightarrow> to_numeric L Coerce v = Inr n"
  by (cases v) (auto split: option.splits if_splits)

lemma to_numeric_raise_fails:
  "to_numeric L Raise v = Inl e \<Longrightarrow>
   \<exists>s. v = Str s \<and> s \<noteq> [] \<and> to_numeric L Coerce v = Inr NotANumber"
  by (cases v) (auto split: option.splits if_splits)

lemma lower_eq_Nil [simp]: "lower s = [] \<longleftrightarrow> s = []"
  by (simp add: lower_def)

lemma format_150: "format_2f 150 = ''150.00''"
  by (simp add: format_2f_def round_half_even_def digit_char_def Let_def)

lemma sum_cama_all_null:
  "\<forall>c\<in>set cs. isna (row_get r c PyNone) \<Longrightarrow> sum_cama L r cs acc = acc"
  by (induction cs arbitrary: acc) (auto simp: notna_def Let_def)

lemmas sample_sum_defs = sum_cols_def sum_row_def below_grade_def fresh_def no_ident_def
  get_ident_def row_get_def plain_lib_def

lemma sum_cama_nan_stays: "fst (sum_cama L r cs (NotANumber, b)) = NotANumber"
proof (induction cs arbitrary: b)
  case Nil
  show ?case by simp
next
  case (Cons c cs)
  obtain n where "to_numeric L Coerce (row_get r c PyNone) = Inr n"
    using to_numeric_coerce_total by blast
  with Cons show ?case by (simp add: Let_def)
qed

lemma sum_cama_flag_stays: "snd (sum_cama L r cs (s, False)) = False"
proof (induction cs arbitrary: s)
  case Nil
  show ?case by simp
next
  case (Cons c cs)
  then show ?case by (simp add: Let_def)
qed

lemma sum_cama_unparsable:
  "\<exists>c\<in>set cs. notna (row_get r c PyNone) \<and> to_numeric L Coerce (row_get r c PyNone) = Inr NotANumber
   \<Longrightarrow> sum_cama L r cs (s, b) = (NotANumber, False)"
proof (induction cs arbitrary: s b)
  case Nil
  then show ?case by simp
next
  case (Cons c cs)
  let ?v = "row_get r c PyNone"
  show ?case
  proof (cases "notna ?v \<and> to_numeric L Coerce ?v = Inr NotANumber")
    case True
    have "num_add s NotANumber = NotANumber" by (cases s) simp_all
    with True have "sum_cama L r (c # cs) (s, b) = sum_cama L r cs (NotANumber, False)"
      by (simp add: Let_def)
    moreover have "sum_cama L r cs (NotANumber, False) = (NotANumber, False)"
      using sum_cama_nan_stays[of L r cs False] sum_cama_flag_stays[of L r cs NotANumber]
      by (simp add: prod_eq_iff)
    ultimately show ?thesis by simp
  next
    case False
    with Cons.prems have ex: "\<exists>c\<in>set cs. notna (row_get r c PyNone) \<and>
        to_numeric L Coerce (row_get r c PyNone) = Inr NotANumber" by auto
    show ?thesis
      using Cons.IH[OF ex] by (simp add: Let_def)
  qed
qed

text \<open>
  Claim C5. For a sum mapping whose listing cell is 500 and whose three assessment cells
  are 200, 150 and a missing value, the sum is 350 and a mismatch with the difference
  \<open>150.00\<close> is recorded. For a record whose assessment cells of the mapping are all
  missing, the mapping leaves both lists as they were: the field is not marked as
  compared and no mismatch is recorded.
\<close>

theorem sum_rule_sums_and_skips:
  "(sum_mls_col m \<in> set cols \<and> cama_cols m = [c1, c2, c3] \<and>
    c1 \<in> set cols \<and> c2 \<in> set cols \<and> c3 \<in> set cols \<and>
    row_get r (sum_mls_col m) PyNone = Number (Finite 500) \<and>
    row_get r c1 PyNone = Number (Finite 200) \<and>
    row_get r c2 PyNone = Number (Finite 150) \<and>
    isna (row_get r c3 PyNone)
    \<longrightarrow> compare_sum L NUMERIC_TOLERANCE skip cols r rid st m =
        st\<lparr>fields_compared := fields_compared st @ [sum_mls_col m],
           record_mismatches := record_mismatches st @
             [\<lparr>Parcel_ID = rid, info = get_ident r, Field_MLS = sum_mls_col m,
               Field_CAMA = ''SUM('' @ join '', '' (cama_cols m) @ '')'',
               MLS_Value = Number (Finite 500), CAMA_Value = Number (Finite 350),
               Difference = Some ''150.00'', Expected_CAMA_Value = None,
               Match_Rule = None\<rparr>]\<rparr>)
   \<and> ((\<forall>c\<in>set (cama_cols m'). isna (row_get r' c PyNone))
      \<longrightarrow> compare_sum L' tol' skip' cols' r' rid' st' m' = st')"
proof (intro conjI impI)
  assume "sum_mls_col m \<in> set cols \<and> cama_cols m = [c1, c2, c3] \<and>
    c1 \<in> set cols \<and> c2 \<in> set cols \<and> c3 \<in> set cols \<and>
    row_get r (sum_mls_col m) PyNone = Number (Finite 500) \<and>
    row_get r c1 PyNone = Number (Finite 200) \<and>
    row_get r c2 PyNone = Number (Finite 150) \<and>
    isna (row_get r c3 PyNone)"
  then show "compare_sum L NUMERIC_TOLERANCE skip cols r rid st m =
        st\<lparr>fields_compared := fields_compared st @ [sum_mls_col m],
           record_mismatches := record_mismatches st @
             [\<lparr>Parcel_ID = rid, info = get_ident r, Field_MLS = sum_mls_col m,
               Field_CAMA = ''SUM('' @ join '', '' (cama_cols m) @ '')'',
               MLS_Value = Number (Finite 500), CAMA_Value = Number (Finite 350),
               Difference = Some ''150.00'', Expected_CAMA_Value = None,
               Match_Rule = None\<rparr>]\<rparr>"
    by (simp add: compare_sum_def is_blank_def notna_def Let_def sum_zero_def is_zero_def
        values_equal_def isclose_def NUMERIC_TOLERANCE_def calculate_difference_def format_150)
next
  assume a: "\<forall>c\<in>set (cama_cols m'). isna (row_get r' c PyNone)"
  show "compare_sum L' tol' skip' cols' r' rid' st' m' = st'"
    using sum_cama_all_null[OF a, of L' "(Finite 0, True)"]
    by (simp add: compare_sum_def Let_def)
qed

theorem sum_rule_sums_and_skips_witness:
  "compare_sum plain_lib NUMERIC_TOLERANCE True sum_cols
     (sum_row (Number (Finite 500)) (Number (Finite 200)) (Number (Finite 150)) PyNone)
     (Str ''P1'') fresh below_grade =
     \<lparr>record_mismatches =
        [\<lparr>Parcel_ID = Str ''P1'', info = no_ident,
          Field_MLS = ''Below Grade Finished Area'',
          Field_CAMA = ''SUM(RECROMAREA, FINBSMTAREA, UFEATAREA)'',
          MLS_Value = Number (Finite 500), CAMA_Value = Number (Finite 350),
          Difference = Some ''150.00'', Expected_CAMA_Value = None, Match_Rule = None\<rparr>],
      fields_compared = [''Below Grade Finished Area'']\<rparr>
   \<and> compare_sum plain_lib NUMERIC_TOLERANCE True sum_cols
       (sum_row (Number (Finite 500)) PyNone nan PyNone) (Str ''P1'') fresh below_grade = fresh"
  using sum_rule_sums_and_skips [of below_grade sum_cols "''RECROMAREA''" "''FINBSMTAREA''"
      "''UFEATAREA''"
      "sum_row (Number (Finite 500)) (Number (Finite 200)) (Number (Finite 150)) PyNone"
      plain_lib True "Str ''P1''" fresh below_grade
      "sum_row (Number (Finite 500)) PyNone nan PyNone" plain_lib NUMERIC_TOLERANCE True
      sum_cols "Str ''P1''" fresh]
  by (simp add: sample_sum_defs nan_def)


text \<open>
  Claim C9, as the program has it. When a cell of the assessment side is present but
  does not convert to a number, the sum is not-a-number. If then the listing cell is not
  blank, is not a zero skipped under the skip-zero setting, and does not itself convert
  to not-a-number, the mapping records a mismatch whose difference is \<open>N/A\<close>, or
  \<open>Text difference\<close> when the listing cell is no number.
\<close>

theorem sum_rule_unparsable_cell:
  assumes cols: "sum_mls_col m \<in> set cols" "set (cama_cols m) \<subseteq> set cols"
    and bad: "\<exists>c\<in>set (cama_cols m). notna (row_get r c PyNone) \<and>
                to_numeric L Coerce (row_get r c PyNone) = Inr NotANumber"
    and nonblank: "\<not> is_blank (row_get r (sum_mls_col m) PyNone)"
    and nozero: "\<not> (skip \<and> to_numeric L Coerce (row_get r (sum_mls_col m) PyNone) = Inr (Finite 0))"
    and nonan: "to_numeric L Raise (row_get r (sum_mls_col m) PyNone) \<noteq> Inr NotANumber"
  shows "sum_cama L r (cama_cols m) (Finite 0, True) = (NotANumber, False)
    \<and> compare_sum L tol skip cols r rid st m =
      st\<lparr>fields_compared := fields_compared st @ [sum_mls_col m],
         record_mismatches := record_mismatches st @
           [\<lparr>Parcel_ID = rid, info = get_ident r, Field_MLS = sum_mls_col m,
             Field_CAMA = ''SUM('' @ join '', '' (cama_cols m) @ '')'',
             MLS_Value = row_get r (sum_mls_col m) PyNone, CAMA_Value = Number NotANumber,
             Difference = Some (case to_numeric L Raise (row_get r (sum_mls_col m) PyNone) of
                                  Inl e \<Rightarrow> ''Text difference'' | Inr n \<Rightarrow> ''N/A''),
             Expected_CAMA_Value = None, Match_Rule = None\<rparr>]\<rparr>"
proof -
  let ?v = "row_get r (sum_mls_col m) PyNone"
  have s: "sum_cama L r (cama_cols m) (Finite 0, True) = (NotANumber, False)"
    using sum_cama_unparsable[OF bad] .
  have f: "filter (\<lambda>c. c \<notin> set cols) (cama_cols m) = []"
    using cols(2) by (auto simp: filter_empty_conv)
  show ?thesis
  proof (cases "to_numeric L Raise ?v")
    case (Inl e)
    then obtain t where t: "?v = Str t" "t \<noteq> []" "to_numeric L Coerce ?v = Inr NotANumber"
      using to_numeric_raise_fails by blast
    with nonblank have "strip t \<noteq> []" by (simp add: is_blank_def)
    with Inl t s f cols(1) nonblank show ?thesis
      by (simp add: compare_sum_def Let_def sum_zero_def is_zero_def values_equal_def
          norm_text_def notna_def calculate_difference_def)
  next
    case (Inr n)
    with nonan obtain a where a: "n = Finite a" by (cases n) auto
    have co: "to_numeric L Coerce ?v = Inr (Finite a)"
      using Inr a to_numeric_raise_coerce by blast
    with nozero have "\<not> (skip \<and> a = 0)" by simp
    with Inr a co s f cols(1) nonblank show ?thesis
      by (auto simp: compare_sum_def Let_def sum_zero_def is_zero_def values_equal_def
          calculate_difference_def)
  qed
qed


theorem sum_rule_unparsable_cell_witness:
  "compare_sum plain_lib NUMERIC_TOLERANCE True sum_cols
     (sum_row (Number (Finite 500)) (Str ''abc'') PyNone PyNone) (Str ''P1'') fresh below_grade =
     \<lparr>record_mismatches =
        [\<lparr>Parcel_ID = Str ''P1'', info = no_ident,
          Field_MLS = ''Below Grade Finished Area'',
          Field_CAMA = ''SUM(RECROMAREA, FINBSMTAREA, UFEATAREA)'',
          MLS_Value = Number (Finite 500), CAMA_Value = Number NotANumber,
          Difference = Some ''N/A'', Expected_CAMA_Value = None, Match_Rule = None\<rparr>],
      fields_compared = [''Below Grade Finished Area'']\<rparr>
   \<and> map Difference (record_mismatches (compare_sum plain_lib NUMERIC_TOLERANCE True sum_cols
       (sum_row (Str ''unknown'') (Str ''abc'') PyNone PyNone) (Str ''P1'') fresh below_grade))
     = [Some ''Text difference'']"
  using sum_rule_unparsable_cell [of below_grade sum_cols
      "sum_row (Number (Finite 500)) (Str ''abc'') PyNone PyNone" plain_lib True
      NUMERIC_TOLERANCE "Str ''P1''" fresh]
    sum_rule_unparsable_cell [of below_grade sum_cols
      "sum_row (Str ''unknown'') (Str ''abc'') PyNone PyNone" plain_lib True
      NUMERIC_TOLERANCE "Str ''P1''" fresh]
  by (simp add: sample_sum_defs notna_def is_blank_def strip_def isspace_def)

text \<open>
  With the skip-zero setting of the module, a listing cell 0 next to an assessment cell
  that does not convert gives no mismatch, although the listing cell is not blank.
\<close>

theorem sum_rule_unparsable_cell_counterexample:
  "notna (Str ''abc'')
   \<and> to_numeric plain_lib Coerce (Str ''abc'') = Inr NotANumber
   \<and> \<not> is_blank (Number (Finite 0))
   \<and> record_mismatches (compare_sum plain_lib NUMERIC_TOLERANCE SKIP_ZERO_VALUES sum_cols
        (sum_row (Number (Finite 0)) (Str ''abc'') PyNone PyNone) (Str ''P1'') fresh
        below_grade) = []"
  by (simp add: sample_sum_defs notna_def is_blank_def compare_sum_def sum_zero_def
      is_zero_def SKIP_ZERO_VALUES_def Let_def)

section \<open>Properties of the one-to-one and categorical mappings\<close>

lemmas merge_defs = rename_def merge_outer_def merge_inner_def merged_columns_def
  other_cols_def lname_def rname_def lpart_def rpart_def partners_def cell_def row_get_def
  nan_def both_row_def left_row_def right_row_def indicator_def

lemmas sample_direct_defs = bedrooms_def direct_cols_def direct_row_def sample_ids_def
  mls_table_def cama_table_def fresh_def no_ident_def get_ident_def row_get_def plain_lib_def

lemma format_minus_5: "format_2f (- 5) = ''-5.00''"
  by (simp add: format_2f_def round_half_even_def digit_char_def Let_def)

text \<open>
  Claim C6. A one-to-one mapping with the listing cell 0 and the assessment cell 5.
  Under the skip-zero setting no mismatch is recorded, yet the field has already been
  added to the fields compared; without the setting the mismatch is recorded with the
  difference \<open>-5.00\<close>.
\<close>

theorem direct_rule_zero_against_five:
  "compare_direct plain_lib NUMERIC_TOLERANCE True direct_cols
     (direct_row (Number (Finite 0)) (Number (Finite 5))) (Str ''P1'') fresh bedrooms
   = \<lparr>record_mismatches = [], fields_compared = [''Bedrooms Total'']\<rparr>
   \<and> compare_direct plain_lib NUMERIC_TOLERANCE False direct_cols
     (direct_row (Number (Finite 0)) (Number (Finite 5))) (Str ''P1'') fresh bedrooms
   = \<lparr>record_mismatches =
        [\<lparr>Parcel_ID = Str ''P1'', info = no_ident, Field_MLS = ''Bedrooms Total'',
          Field_CAMA = ''RMBED'', MLS_Value = Number (Finite 0),
          CAMA_Value = Number (Finite 5), Difference = Some ''-5.00'',
          Expected_CAMA_Value = None, Match_Rule = None\<rparr>],
      fields_compared = [''Bedrooms Total'']\<rparr>"
  by (simp add: sample_direct_defs compare_direct_def is_blank_def direct_zero_def is_zero_def
      values_equal_def isclose_def NUMERIC_TOLERANCE_def calculate_difference_def
      format_minus_5 Let_def)

theorem direct_rule_zero_against_five_witness:
  "fields_compared (compare_direct plain_lib NUMERIC_TOLERANCE True direct_cols
     (direct_row (Number (Finite 0)) (Number (Finite 5))) (Str ''P1'') fresh bedrooms)
   = [''Bedrooms Total'']
   \<and> map Difference (record_mismatches (compare_direct plain_lib NUMERIC_TOLERANCE False
       direct_cols (direct_row (Number (Finite 0)) (Number (Finite 5))) (Str ''P1'') fresh
       bedrooms)) = [Some ''-5.00'']"
  using direct_rule_zero_against_five by simp

text \<open>
  Claim C1. The field of a one-to-one mapping is added to the fields compared before the
  zero test. A matched record whose only field is suppressed by the zero rule is
  therefore reported as a perfect match with one field compared.
\<close>

theorem zero_field_makes_perfect_match:
  "\<exists>out. compare_data_enhanced plain_lib NUMERIC_TOLERANCE SKIP_ZERO_VALUES
      (Some (mls_table (Number (Finite 0)))) (Some (cama_table (Number (Finite 5))))
      sample_ids [bedrooms] [] [] = Inr out
    \<and> value_mismatches (result out) = []
    \<and> perfect_matches (result out) =
        [\<lparr>pm_Parcel_ID = Str ''P1'', pm_info = no_ident, Fields_Compared = 1,
          Fields_List = ''Bedrooms Total''\<rparr>]"
  by (simp add: compare_data_enhanced_def sample_direct_defs merge_defs process_row_def
      compare_record_def compare_direct_def is_blank_def direct_zero_def is_zero_def
      no_tables_def SKIP_ZERO_VALUES_def Let_def)

text \<open>
  Claim C4. Both conversions of the categorical evaluator run under \<open>errors='coerce'\<close>
  and never raise, so its comparison of texts is never reached: an actual value and an
  expected value that are both no numbers count as a match although their texts differ.
\<close>

theorem categorical_match_text_codes:
  "categorical_match plain_lib NUMERIC_TOLERANCE (Str ''Central Air'') (Str ''maybe'')
     cooling_codes
   \<and> expected_cama plain_lib (Str ''Central Air'') cooling_codes = Str ''yes''
   \<and> to_numeric plain_lib Raise (Str ''maybe'') = Inl ValueError
   \<and> lower (strip ''maybe'') \<noteq> lower (strip ''yes'')"
  by (simp add: categorical_match_def expected_cama_def text_found_def cooling_codes_def
      plain_lib_def notna_def strip_def isspace_def lower_def lower_char_def Let_def)

section \<open>Early returns and missing columns\<close>

text \<open>
  Claim C7, as the program has it. Given both tables and both key names, the comparison
  returns early, with no result, exactly when a key column is absent from its table or
  the list of one-to-one mappings is empty, whatever sum and categorical mappings are
  given. A mapping that names a column missing from the merged table leaves the lists of
  the record as they were; it does not stop the run.
\<close>

theorem compare_aborts_iff:
  "(isl (compare_data_enhanced L tol skip (Some mls) (Some cama)
           \<lparr>id_mls_col = Some a, id_cama_col = Some b\<rparr>
           cols_mapping cols_sum cols_categorical)
      \<longleftrightarrow> a \<notin> set (columns mls) \<or> b \<notin> set (columns cama) \<or> cols_mapping = [])
   \<and> (mls_col m \<notin> set cols \<or> cama_col m \<notin> set cols
        \<longrightarrow> compare_direct L tol skip cols r rid st m = st)
   \<and> (sum_mls_col sm \<notin> set cols \<or> \<not> set (cama_cols sm) \<subseteq> set cols
        \<longrightarrow> compare_sum L tol skip cols r rid st sm = st)
   \<and> (cat_mls_col cm \<notin> set cols \<or> cat_cama_col cm \<notin> set cols
        \<longrightarrow> compare_categorical L tol cols r rid st cm = st)"
proof (intro conjI impI)
  show "isl (compare_data_enhanced L tol skip (Some mls) (Some cama)
           \<lparr>id_mls_col = Some a, id_cama_col = Some b\<rparr>
           cols_mapping cols_sum cols_categorical)
      \<longleftrightarrow> a \<notin> set (columns mls) \<or> b \<notin> set (columns cama) \<or> cols_mapping = []"
    by (simp add: compare_data_enhanced_def Let_def)
next
  assume "mls_col m \<notin> set cols \<or> cama_col m \<notin> set cols"
  then show "compare_direct L tol skip cols r rid st m = st"
    by (auto simp: compare_direct_def)
next
  assume "sum_mls_col sm \<notin> set cols \<or> \<not> set (cama_cols sm) \<subseteq> set cols"
  then have "sum_mls_col sm \<notin> set cols \<or> filter (\<lambda>c. c \<notin> set cols) (cama_cols sm) \<noteq> []"
    by (auto simp: filter_empty_conv)
  then show "compare_sum L tol skip cols r rid st sm = st"
    by (auto simp: compare_sum_def)
next
  assume "cat_mls_col cm \<notin> set cols \<or> cat_cama_col cm \<notin> set cols"
  then show "compare_categorical L tol cols r rid st cm = st"
    by (auto simp: compare_categorical_def)
qed

theorem compare_aborts_iff_witness:
  "\<not> isl (compare_data_enhanced plain_lib NUMERIC_TOLERANCE True
            (Some (mls_table (Number (Finite 3)))) (Some (cama_table (Number (Finite 3))))
            \<lparr>id_mls_col = Some ''Parcel Number'', id_cama_col = Some ''PARID''\<rparr>
            [garage] [below_grade] [cooling_codes])
   \<and> isl (compare_data_enhanced plain_lib NUMERIC_TOLERANCE True
            (Some (mls_table (Number (Finite 3)))) (Some (cama_table (Number (Finite 3))))
            \<lparr>id_mls_col = Some ''Parcel ID'', id_cama_col = Some ''PARID''\<rparr>
            [garage] [below_grade] [cooling_codes])
   \<and> compare_direct plain_lib NUMERIC_TOLERANCE True direct_cols
        (direct_row (Number (Finite 3)) (Number (Finite 3))) (Str ''P1'') fresh garage = fresh
   \<and> compare_sum plain_lib NUMERIC_TOLERANCE True direct_cols
        (direct_row (Number (Finite 3)) (Number (Finite 3))) (Str ''P1'') fresh below_grade = fresh
   \<and> compare_categorical plain_lib NUMERIC_TOLERANCE direct_cols
        (direct_row (Number (Finite 3)) (Number (Finite 3))) (Str ''P1'') fresh cooling_codes
      = fresh"
  using compare_aborts_iff [of plain_lib NUMERIC_TOLERANCE True
      "mls_table (Number (Finite 3))" "cama_table (Number (Finite 3))"
      "''Parcel Number''" "''PARID''" "[garage]" "[below_grade]" "[cooling_codes]"
      garage direct_cols "direct_row (Number (Finite 3)) (Number (Finite 3))" "Str ''P1''"
      fresh below_grade cooling_codes]
    compare_aborts_iff [of plain_lib NUMERIC_TOLERANCE True
      "mls_table (Number (Finite 3))" "cama_table (Number (Finite 3))"
      "''Parcel ID''" "''PARID''" "[garage]" "[below_grade]" "[cooling_codes]"
      garage direct_cols "direct_row (Number (Finite 3)) (Number (Finite 3))" "Str ''P1''"
      fresh below_grade cooling_codes]
  by (simp add: mls_table_def cama_table_def garage_def direct_cols_def below_grade_def
      cooling_codes_def)

text \<open>
  With no one-to-one mapping but a sum and a categorical mapping, the rule set is not
  empty and both key columns are present, yet the comparison returns early.
\<close>

theorem compare_aborts_counterexample:
  "\<not> (isl (compare_data_enhanced plain_lib NUMERIC_TOLERANCE True
            (Some (mls_table (Number (Finite 3)))) (Some (cama_table (Number (Finite 3))))
            \<lparr>id_mls_col = Some ''Parcel Number'', id_cama_col = Some ''PARID''\<rparr>
            [] [below_grade] [cooling_codes])
       \<longleftrightarrow> (''Parcel Number'' \<notin> set (columns (mls_table (Number (Finite 3))))
            \<or> ''PARID'' \<notin> set (columns (cama_table (Number (Finite 3))))
            \<or> length ([] :: direct_rule list) + length [below_grade] + length [cooling_codes] = 0))"
  by (simp add: compare_data_enhanced_def mls_table_def cama_table_def)


section \<open>Properties of the duplicate report\<close>

lemma select_marked: "map fst (filter snd (zip xs (map f xs))) = filter f xs"
  by (induction xs) auto

lemma filter_by_index: "filter P xs = map (nth xs) (filter (\<lambda>i. P (xs ! i)) [0..<length xs])"
proof -
  have "filter P xs = filter P (map (nth xs) [0..<length xs])"
    by (simp add: map_nth)
  also have "\<dots> = map (nth xs) (filter (P \<circ> nth xs) [0..<length xs])"
    by (simp only: filter_map)
  finally show ?thesis by (simp add: comp_def)
qed

lemma more_than_one_iff:
  assumes i: "i < length xs" and Pi: "P (xs ! i)"
  shows "1 < length (filter P xs) \<longleftrightarrow> (\<exists>j < length xs. j \<noteq> i \<and> P (xs ! j))"
proof -
  let ?S = "{k. k < length xs \<and> P (xs ! k)}"
  have len: "length (filter P xs) = card ?S"
    by (rule length_filter_conv_card)
  have fin: "finite ?S" by simp
  have iS: "i \<in> ?S" using i Pi by simp
  show ?thesis
  proof
    assume "1 < length (filter P xs)"
    then have c: "1 < card ?S" using len by simp
    have "\<not> ?S \<subseteq> {i}"
    proof
      assume "?S \<subseteq> {i}"
      then have "card ?S \<le> card {i}" by (intro card_mono) auto
      with c show False by simp
    qed
    then show "\<exists>j < length xs. j \<noteq> i \<and> P (xs ! j)" by auto
  next
    assume "\<exists>j < length xs. j \<noteq> i \<and> P (xs ! j)"
    then obtain j where j: "j < length xs" "j \<noteq> i" "P (xs ! j)" by blast
    then have "{i, j} \<subseteq> ?S" using iS by simp
    then have "card {i, j} \<le> card ?S" using fin by (intro card_mono) auto
    with j(2) show "1 < length (filter P xs)" using len by simp
  qed
qed

lemma repeated_key_rows_filter:
  "filter (\<lambda>r. 1 < length (partners df c (cell r c))) (rows df) = repeated_key_rows df c"
proof -
  let ?xs = "rows df"
  have "filter (\<lambda>i. 1 < length (partners df c (cell (?xs ! i) c))) [0..<length ?xs]
      = filter (\<lambda>i. \<exists>j \<in> set [0..<length ?xs].
                      j \<noteq> i \<and> cell (?xs ! j) c = cell (?xs ! i) c)
          [0..<length ?xs]"
  proof (rule filter_cong[OF refl])
    fix i assume "i \<in> set [0..<length ?xs]"
    then have i: "i < length ?xs" by simp
    show "(1 < length (partners df c (cell (?xs ! i) c)))
          = (\<exists>j \<in> set [0..<length ?xs]. j \<noteq> i \<and> cell (?xs ! j) c = cell (?xs ! i) c)"
      unfolding partners_def
      using more_than_one_iff[of i ?xs "\<lambda>r. cell r c = cell (?xs ! i) c", OF i] by auto
  qed
  then show ?thesis
    unfolding repeated_key_rows_def
    by (subst filter_by_index) simp
qed

lemma find_duplicate_ids_rows:
  assumes "id_column \<in> set (columns df)"
  shows "find_duplicate_ids (Some df) id_column = Inr (repeated_key_rows df id_column)"
proof (cases "rows df = []")
  case True
  then show ?thesis
    by (simp add: find_duplicate_ids_def empty_df_def repeated_key_rows_def)
next
  case False
  with assms have "\<not> empty_df df" by (auto simp: empty_df_def)
  with assms show ?thesis
    using repeated_key_rows_filter[of df id_column]
    by (simp add: find_duplicate_ids_def duplicated_def select_marked)
qed

text \<open>
  Claim C10. For a table that has the key column, \<open>find_duplicate_ids\<close> returns exactly
  the rows whose key occurs in more than one row, every copy included, in the order of
  the table. The main program asks for the two reports before it compares, and the
  comparison it then reports is the one of the two tables as loaded.
\<close>

theorem duplicates_found_before_compare:
  "(id_column \<in> set (columns df)
      \<longrightarrow> find_duplicate_ids (Some df) id_column = Inr (repeated_key_rows df id_column))
   \<and> (a \<in> set (columns mls) \<and> b \<in> set (columns cama)
      \<longrightarrow> main_steps L tol skip (Some mls) (Some cama)
            \<lparr>id_mls_col = Some a, id_cama_col = Some b\<rparr>
            cols_mapping cols_sum cols_categorical
          = Ran (repeated_key_rows mls a) (repeated_key_rows cama b)
              (compare_data_enhanced L tol skip (Some mls) (Some cama)
                 \<lparr>id_mls_col = Some a, id_cama_col = Some b\<rparr>
                 cols_mapping cols_sum cols_categorical))"
  by (simp add: find_duplicate_ids_rows main_steps_def)

theorem duplicates_found_before_compare_witness:
  "find_duplicate_ids (Some twice) ''PARID'' =
     Inr [[(''PARID'', Str ''P1''), (''RMBED'', Number (Finite 3))],
          [(''PARID'', Str ''P1''), (''RMBED'', Number (Finite 4))]]
   \<and> main_steps plain_lib NUMERIC_TOLERANCE True (Some (mls_table (Number (Finite 3))))
        (Some twice) \<lparr>id_mls_col = Some ''Parcel Number'', id_cama_col = Some ''PARID''\<rparr>
        [bedrooms] [] []
      = Ran [] [[(''PARID'', Str ''P1''), (''RMBED'', Number (Finite 3))],
                [(''PARID'', Str ''P1''), (''RMBED'', Number (Finite 4))]]
          (compare_data_enhanced plain_lib NUMERIC_TOLERANCE True
             (Some (mls_table (Number (Finite 3)))) (Some twice)
             \<lparr>id_mls_col = Some ''Parcel Number'', id_cama_col = Some ''PARID''\<rparr>
             [bedrooms] [] [])"
proof -
  have t: "repeated_key_rows twice ''PARID'' =
     [[(''PARID'', Str ''P1''), (''RMBED'', Number (Finite 3))],
      [(''PARID'', Str ''P1''), (''RMBED'', Number (Finite 4))]]"
    unfolding repeated_key_rows_filter[symmetric]
    by (simp add: twice_def partners_def cell_def row_get_def)
  have m: "repeated_key_rows (mls_table (Number (Finite 3))) ''Parcel Number'' = []"
    unfolding repeated_key_rows_filter[symmetric]
    by (simp add: mls_table_def partners_def cell_def row_get_def)
  have c: "''PARID'' \<in> set (columns twice)"
    "''Parcel Number'' \<in> set (columns (mls_table (Number (Finite 3))))"
    by (simp_all add: twice_def mls_table_def)
  show ?thesis
    using duplicates_found_before_compare [of "''PARID''" twice "''Parcel Number''"
        "mls_table (Number (Finite 3))" "''PARID''" twice plain_lib NUMERIC_TOLERANCE True
        "[bedrooms]" "[]" "[]"] c
    by (simp only: t m simp_thms)
qed

section \<open>Properties of the loop over the merged rows\<close>

lemma process_row_appends:
  "process_row L tol skip cols key cm cs cc acc r
   = append_tables acc (contribution L tol skip cols key cm cs cc r)"
  by (simp add: process_row_def contribution_def append_tables_def no_tables_def Let_def)

lemma foldl_process_row:
  "foldl (process_row L tol skip cols key cm cs cc) acc rs
   = append_tables acc
      \<lparr>missing_in_cama = concat (map (\<lambda>r. missing_in_cama (contribution L tol skip cols key cm cs cc r)) rs),
       missing_in_mls = concat (map (\<lambda>r. missing_in_mls (contribution L tol skip cols key cm cs cc r)) rs),
       value_mismatches = concat (map (\<lambda>r. value_mismatches (contribution L tol skip cols key cm cs cc r)) rs),
       perfect_matches = concat (map (\<lambda>r. perfect_matches (contribution L tol skip cols key cm cs cc r)) rs)\<rparr>"
proof (induction rs arbitrary: acc)
  case Nil
  show ?case by (simp add: append_tables_def)
next
  case (Cons r rs)
  show ?case
    by (simp add: Cons.IH process_row_appends[of L tol skip cols key cm cs cc acc r]
        append_tables_def)
qed

lemma compare_direct_marked: "marked st \<Longrightarrow> marked (compare_direct L tol skip cols r rid st m)"
  by (auto simp: marked_def compare_direct_def Let_def)

lemma compare_sum_marked: "marked st \<Longrightarrow> marked (compare_sum L tol skip cols r rid st m)"
  by (auto simp: marked_def compare_sum_def Let_def split: prod.splits)

lemma compare_categorical_marked:
  "marked st \<Longrightarrow> marked (compare_categorical L tol cols r rid st m)"
  by (auto simp: marked_def compare_categorical_def Let_def)

lemma foldl_marked:
  "(\<And>st m. marked st \<Longrightarrow> marked (f st m)) \<Longrightarrow> marked st \<Longrightarrow> marked (foldl f st ms)"
  by (induction ms arbitrary: st) auto

lemma compare_record_marked: "marked (compare_record L tol skip cols r rid cm cs cc)"
  unfolding compare_record_def
  by (intro foldl_marked compare_direct_marked compare_sum_marked compare_categorical_marked)
     (simp_all add: marked_def)

lemma contribution_left_only:
  assumes "row_get r ''_merge'' PyNone = Str ''left_only''"
  shows "in_bucket (contribution L tol skip cols key cm cs cc r) k \<longleftrightarrow> k = MissingInB"
  using assms
  by (cases k) (simp_all add: contribution_def process_row_def no_tables_def Let_def)

lemma contribution_right_only:
  assumes "row_get r ''_merge'' PyNone = Str ''right_only''"
  shows "in_bucket (contribution L tol skip cols key cm cs cc r) k \<longleftrightarrow> k = MissingInA"
  using assms
  by (cases k) (simp_all add: contribution_def process_row_def no_tables_def Let_def)

lemma contribution_both:
  assumes "row_get r ''_merge'' PyNone = Str ''both''"
  shows "in_bucket (contribution L tol skip cols key cm cs cc r) k \<longleftrightarrow>
         k = (let st = compare_record L tol skip cols r (row_get r key PyNone) cm cs cc
              in if record_mismatches st \<noteq> [] then Mismatched
                 else if fields_compared st \<noteq> [] then PerfectMatch else Skipped)"
  using assms
  by (cases k) (simp_all add: contribution_def process_row_def no_tables_def Let_def)

lemma contribution_other:
  assumes "row_get r ''_merge'' PyNone \<noteq> Str ''left_only''"
    "row_get r ''_merge'' PyNone \<noteq> Str ''right_only''"
    "row_get r ''_merge'' PyNone \<noteq> Str ''both''"
  shows "in_bucket (contribution L tol skip cols key cm cs cc r) k \<longleftrightarrow> k = Skipped"
  using assms
  by (cases k) (simp_all add: contribution_def process_row_def no_tables_def Let_def)

lemma one_bucket: "\<exists>!k. in_bucket (contribution L tol skip cols key cm cs cc r) k"
proof -
  consider "row_get r ''_merge'' PyNone = Str ''left_only''"
    | "row_get r ''_merge'' PyNone = Str ''right_only''"
    | "row_get r ''_merge'' PyNone = Str ''both''"
    | "row_get r ''_merge'' PyNone \<noteq> Str ''left_only''"
      "row_get r ''_merge'' PyNone \<noteq> Str ''right_only''"
      "row_get r ''_merge'' PyNone \<noteq> Str ''both''"
    by blast
  then show ?thesis
  proof cases
    case 1
    show ?thesis by (simp add: contribution_left_only[OF 1])
  next
    case 2
    show ?thesis by (simp add: contribution_right_only[OF 2])
  next
    case 3
    show ?thesis by (simp add: contribution_both[OF 3])
  next
    case 4
    show ?thesis by (simp add: contribution_other[OF 4])
  qed
qed

lemma skipped_iff_nothing_compared:
  assumes "row_get r ''_merge'' PyNone = Str ''both''"
  shows "in_bucket (contribution L tol skip cols key cm cs cc r) Skipped \<longleftrightarrow>
         fields_compared (compare_record L tol skip cols r (row_get r key PyNone) cm cs cc) = []"
  using compare_record_marked[of L tol skip cols r "row_get r key PyNone" cm cs cc]
    contribution_both[OF assms, of L tol skip cols key cm cs cc Skipped]
  by (auto simp del: in_bucket.simps simp: Let_def marked_def split: if_splits)

lemma suffixed_not_merge:
  "c @ ''_x'' \<noteq> ''_merge''" "c @ ''_y'' \<noteq> ''_merge''"
  "''_merge'' \<noteq> c @ ''_x''" "''_merge'' \<noteq> c @ ''_y''"
proof -
  have "last (c @ ''_x'') \<noteq> last ''_merge''" "last (c @ ''_y'') \<noteq> last ''_merge''"
    by simp_all
  then show "c @ ''_x'' \<noteq> ''_merge''" "c @ ''_y'' \<noteq> ''_merge''"
    "''_merge'' \<noteq> c @ ''_x''" "''_merge'' \<noteq> c @ ''_y''"
    by metis+
qed

lemma lpart_names:
  "''_merge'' \<notin> set (columns left) \<Longrightarrow> ''_merge'' \<notin> fst ` set (lpart left right key f)"
  by (auto simp: lpart_def lname_def other_cols_def suffixed_not_merge split: if_splits)

lemma rpart_names:
  "''_merge'' \<notin> set (columns right) \<Longrightarrow> ''_merge'' \<notin> fst ` set (rpart left right key f)"
  by (auto simp: rpart_def rname_def other_cols_def suffixed_not_merge split: if_splits)

lemma status_indicator:
  assumes "''_merge'' \<notin> fst ` set X"
  shows "row_get (indicator s X) ''_merge'' d = Str s"
proof -
  have "map_of X ''_merge'' = None"
    using assms by (simp add: map_of_eq_None_iff)
  then show ?thesis
    by (simp add: row_get_def indicator_def map_add_def)
qed

lemma key_indicator: "row_get (indicator s ((key, k) # rest)) key d = k"
  by (simp add: row_get_def indicator_def)

lemma partners_empty_iff: "partners df key k = [] \<longleftrightarrow> k \<notin> keys_of df key"
  by (auto simp: partners_def keys_of_def filter_empty_conv)

lemma merge_outer_rows:
  "r \<in> set (rows (merge_outer left right key)) \<longleftrightarrow>
     (\<exists>l\<in>set (rows left). partners right key (cell l key) = [] \<and>
          r = indicator ''left_only'' (left_row left right key l))
   \<or> (\<exists>l\<in>set (rows left). \<exists>p\<in>set (partners right key (cell l key)).
          r = indicator ''both'' (both_row left right key l p))
   \<or> (\<exists>p\<in>set (rows right). partners left key (cell p key) = [] \<and>
          r = indicator ''right_only'' (right_row left right key p))"
  by (auto simp: merge_outer_def split: if_splits)

lemma merge_outer_row_status:
  assumes r: "r \<in> set (rows (merge_outer left right key))"
    and nm: "''_merge'' \<notin> set (columns left)" "''_merge'' \<notin> set (columns right)"
      "key \<noteq> ''_merge''"
  shows "(row_get r ''_merge'' PyNone = Str ''left_only''
            \<and> row_get r key PyNone \<in> keys_of left key - keys_of right key)
       \<or> (row_get r ''_merge'' PyNone = Str ''right_only''
            \<and> row_get r key PyNone \<in> keys_of right key - keys_of left key)
       \<or> (row_get r ''_merge'' PyNone = Str ''both''
            \<and> row_get r key PyNone \<in> keys_of left key \<inter> keys_of right key)"
proof -
  have names: "''_merge'' \<notin> fst ` set ((key, k) # lpart left right key f @ rpart left right key g)"
    for k f g
    using nm lpart_names[OF nm(1), of right key f] rpart_names[OF nm(2), of left key g]
    by auto
  from r consider
    (L) l where "l \<in> set (rows left)" "partners right key (cell l key) = []"
        "r = indicator ''left_only'' (left_row left right key l)"
    | (B) l p where "l \<in> set (rows left)" "p \<in> set (partners right key (cell l key))"
        "r = indicator ''both'' (both_row left right key l p)"
    | (R) p where "p \<in> set (rows right)" "partners left key (cell p key) = []"
        "r = indicator ''right_only'' (right_row left right key p)"
    unfolding merge_outer_rows by blast
  then show ?thesis
  proof cases
    case L
    have "row_get r ''_merge'' PyNone = Str ''left_only''"
      unfolding L(3) left_row_def by (rule status_indicator[OF names])
    moreover have "row_get r key PyNone = cell l key"
      unfolding L(3) left_row_def by (rule key_indicator)
    moreover have "cell l key \<in> keys_of left key" using L(1) by (auto simp: keys_of_def)
    moreover have "cell l key \<notin> keys_of right key" using L(2) by (simp add: partners_empty_iff)
    ultimately show ?thesis by simp
  next
    case B
    have "row_get r ''_merge'' PyNone = Str ''both''"
      unfolding B(3) both_row_def by (rule status_indicator[OF names])
    moreover have "row_get r key PyNone = cell l key"
      unfolding B(3) both_row_def by (rule key_indicator)
    moreover have "cell l key \<in> keys_of left key" using B(1) by (auto simp: keys_of_def)
    moreover have "cell l key \<in> keys_of right key"
    proof -
      from B(2) have "p \<in> set (rows right)" "cell p key = cell l key"
        by (auto simp: partners_def)
      then show ?thesis unfolding keys_of_def by (metis imageI)
    qed
    ultimately show ?thesis by simp
  next
    case R
    have "row_get r ''_merge'' PyNone = Str ''right_only''"
      unfolding R(3) right_row_def by (rule status_indicator[OF names])
    moreover have "row_get r key PyNone = cell p key"
      unfolding R(3) right_row_def by (rule key_indicator)
    moreover have "cell p key \<in> keys_of right key" using R(1) by (auto simp: keys_of_def)
    moreover have "cell p key \<notin> keys_of left key" using R(2) by (simp add: partners_empty_iff)
    ultimately show ?thesis by simp
  qed
qed

lemma merge_outer_keys:
  "(\<lambda>r. row_get r key PyNone) ` set (rows (merge_outer left right key))
   = keys_of left key \<union> keys_of right key"
proof (intro set_eqI iffI)
  fix k assume "k \<in> (\<lambda>r. row_get r key PyNone) ` set (rows (merge_outer left right key))"
  then obtain r where r: "r \<in> set (rows (merge_outer left right key))"
    and k: "k = row_get r key PyNone" by blast
  from r show "k \<in> keys_of left key \<union> keys_of right key"
    unfolding merge_outer_rows k
    by (auto simp: key_indicator left_row_def both_row_def right_row_def keys_of_def)
next
  fix k assume "k \<in> keys_of left key \<union> keys_of right key"
  then consider (L) l where "l \<in> set (rows left)" "k = cell l key"
    | (R) p where "p \<in> set (rows right)" "k = cell p key" "k \<notin> keys_of left key"
    by (auto simp: keys_of_def)
  then show "k \<in> (\<lambda>r. row_get r key PyNone) ` set (rows (merge_outer left right key))"
  proof cases
    case L
    show ?thesis
    proof (cases "partners right key (cell l key)")
      case Nil
      with L(1) have "indicator ''left_only'' (left_row left right key l)
          \<in> set (rows (merge_outer left right key))"
        unfolding merge_outer_rows by blast
      moreover have "row_get (indicator ''left_only'' (left_row left right key l)) key PyNone = k"
        unfolding left_row_def L(2) by (rule key_indicator)
      ultimately show ?thesis by force
    next
      case (Cons p ps)
      with L(1) have "indicator ''both'' (both_row left right key l p)
          \<in> set (rows (merge_outer left right key))"
        unfolding merge_outer_rows by force
      moreover have "row_get (indicator ''both'' (both_row left right key l p)) key PyNone = k"
        unfolding both_row_def L(2) by (rule key_indicator)
      ultimately show ?thesis by force
    qed
  next
    case R
    from R(2,3) have "partners left key (cell p key) = []"
      by (simp add: partners_empty_iff)
    with R(1) have "indicator ''right_only'' (right_row left right key p)
        \<in> set (rows (merge_outer left right key))"
      unfolding merge_outer_rows by blast
    moreover have "row_get (indicator ''right_only'' (right_row left right key p)) key PyNone = k"
      unfolding right_row_def R(2) by (rule key_indicator)
    ultimately show ?thesis by force
  qed
qed

lemma cell_renamed:
  assumes "a = b \<or> b \<notin> fst ` set r"
  shows "cell (map (\<lambda>(c, v). (if c = a then b else c, v)) r) b = cell r a"
  using assms
  by (induction r) (auto simp: cell_def row_get_def)

lemma keys_of_rename:
  assumes "a = b \<or> (\<forall>r\<in>set (rows df). b \<notin> fst ` set r)"
  shows "keys_of (rename df a b) b = keys_of df a"
proof -
  have "cell (map (\<lambda>(c, v). (if c = a then b else c, v)) r) b = cell r a"
    if "r \<in> set (rows df)" for r
    using assms that by (intro cell_renamed) auto
  then show ?thesis
    by (auto simp: keys_of_def rename_def image_iff)
qed

lemma columns_rename_no_merge:
  "''_merge'' \<notin> set (columns df) \<Longrightarrow> b \<noteq> ''_merge'' \<Longrightarrow>
   ''_merge'' \<notin> set (columns (rename df a b))"
  by (auto simp: rename_def)

text \<open>
  Claim C2. When the comparison runs, its four tables are the outcomes of the rows of the
  outer merge, row after row. Every merged row lies in exactly one bucket: a left-only
  row in the one of records missing from the assessment side, a right-only row in the
  one of records missing from the listing side, a matched row in exactly one of
  mismatched, perfect match and skipped, skipped being the rows with no field compared.
  The keys of the merged rows are the keys of the two tables, a left-only row carrying a
  key of the listing table alone, a right-only row a key of the assessment table alone,
  a matched row a key of both. The tables are those pandas accepts: neither has a
  column \<open>_merge\<close>, and the listing table has no cell under the name of the assessment
  key besides its own key.
\<close>

theorem every_key_in_one_bucket:
  assumes a: "a \<in> set (columns mls)" and b: "b \<in> set (columns cama)"
    and cm: "cols_mapping \<noteq> []"
    and nm: "''_merge'' \<notin> set (columns mls)" "''_merge'' \<notin> set (columns cama)"
    and fresh_key: "a = b \<or> (\<forall>r\<in>set (rows mls). b \<notin> fst ` set r)"
  shows "let M = merge_outer (rename mls a b) cama b;
             C = contribution L tol skip (columns M) b cols_mapping cols_sum cols_categorical
         in compare_data_enhanced L tol skip (Some mls) (Some cama)
              \<lparr>id_mls_col = Some a, id_cama_col = Some b\<rparr>
              cols_mapping cols_sum cols_categorical
            = Inr \<lparr>result =
                    \<lparr>missing_in_cama = concat (map (\<lambda>r. missing_in_cama (C r)) (rows M)),
                     missing_in_mls = concat (map (\<lambda>r. missing_in_mls (C r)) (rows M)),
                     value_mismatches = concat (map (\<lambda>r. value_mismatches (C r)) (rows M)),
                     perfect_matches = concat (map (\<lambda>r. perfect_matches (C r)) (rows M))\<rparr>,
                   matched_df = merge_inner (rename mls a b) cama b\<rparr>
          \<and> (\<forall>r\<in>set (rows M).
                (\<exists>!k. in_bucket (C r) k)
              \<and> ((row_get r ''_merge'' PyNone = Str ''left_only''
                    \<and> in_bucket (C r) MissingInB
                    \<and> row_get r b PyNone \<in> keys_of mls a - keys_of cama b)
                 \<or> (row_get r ''_merge'' PyNone = Str ''right_only''
                    \<and> in_bucket (C r) MissingInA
                    \<and> row_get r b PyNone \<in> keys_of cama b - keys_of mls a)
                 \<or> (row_get r ''_merge'' PyNone = Str ''both''
                    \<and> row_get r b PyNone \<in> keys_of mls a \<inter> keys_of cama b
                    \<and> (in_bucket (C r) Mismatched \<or> in_bucket (C r) PerfectMatch
                        \<or> in_bucket (C r) Skipped)
                    \<and> (in_bucket (C r) Skipped \<longleftrightarrow>
                         fields_compared (compare_record L tol skip (columns M) r
                           (row_get r b PyNone) cols_mapping cols_sum cols_categorical) = []))))
          \<and> (\<lambda>r. row_get r b PyNone) ` set (rows M) = keys_of mls a \<union> keys_of cama b"
proof -
  define M where "M = merge_outer (rename mls a b) cama b"
  define C where "C = contribution L tol skip (columns M) b cols_mapping cols_sum cols_categorical"
  have bm: "b \<noteq> ''_merge''" using b nm(2) by auto
  have nml: "''_merge'' \<notin> set (columns (rename mls a b))"
    using nm(1) bm by (rule columns_rename_no_merge)
  have keys: "keys_of (rename mls a b) b = keys_of mls a"
    using fresh_key by (rule keys_of_rename)
  have run: "compare_data_enhanced L tol skip (Some mls) (Some cama)
              \<lparr>id_mls_col = Some a, id_cama_col = Some b\<rparr>
              cols_mapping cols_sum cols_categorical
            = Inr \<lparr>result =
                    \<lparr>missing_in_cama = concat (map (\<lambda>r. missing_in_cama (C r)) (rows M)),
                     missing_in_mls = concat (map (\<lambda>r. missing_in_mls (C r)) (rows M)),
                     value_mismatches = concat (map (\<lambda>r. value_mismatches (C r)) (rows M)),
                     perfect_matches = concat (map (\<lambda>r. perfect_matches (C r)) (rows M))\<rparr>,
                   matched_df = merge_inner (rename mls a b) cama b\<rparr>"
    using a b cm
    by (simp add: compare_data_enhanced_def Let_def M_def[symmetric] foldl_process_row
        C_def[symmetric] append_tables_def no_tables_def)
  have row: "(\<exists>!k. in_bucket (C r) k)
              \<and> ((row_get r ''_merge'' PyNone = Str ''left_only''
                    \<and> in_bucket (C r) MissingInB
                    \<and> row_get r b PyNone \<in> keys_of mls a - keys_of cama b)
                 \<or> (row_get r ''_merge'' PyNone = Str ''right_only''
                    \<and> in_bucket (C r) MissingInA
                    \<and> row_get r b PyNone \<in> keys_of cama b - keys_of mls a)
                 \<or> (row_get r ''_merge'' PyNone = Str ''both''
                    \<and> row_get r b PyNone \<in> keys_of mls a \<inter> keys_of cama b
                    \<and> (in_bucket (C r) Mismatched \<or> in_bucket (C r) PerfectMatch
                        \<or> in_bucket (C r) Skipped)
                    \<and> (in_bucket (C r) Skipped \<longleftrightarrow>
                         fields_compared (compare_record L tol skip (columns M) r
                           (row_get r b PyNone) cols_mapping cols_sum cols_categorical) = [])))"
    if r: "r \<in> set (rows M)" for r
  proof -
    have one: "\<exists>!k. in_bucket (C r) k" unfolding C_def by (rule one_bucket)
    from r have st: "(row_get r ''_merge'' PyNone = Str ''left_only''
            \<and> row_get r b PyNone \<in> keys_of mls a - keys_of cama b)
       \<or> (row_get r ''_merge'' PyNone = Str ''right_only''
            \<and> row_get r b PyNone \<in> keys_of cama b - keys_of mls a)
       \<or> (row_get r ''_merge'' PyNone = Str ''both''
            \<and> row_get r b PyNone \<in> keys_of mls a \<inter> keys_of cama b)"
      using merge_outer_row_status[of r "rename mls a b" cama b, OF _ nml nm(2) bm]
      unfolding M_def keys by blast
    then consider
      (L) "row_get r ''_merge'' PyNone = Str ''left_only''"
          "row_get r b PyNone \<in> keys_of mls a - keys_of cama b"
      | (R) "row_get r ''_merge'' PyNone = Str ''right_only''"
          "row_get r b PyNone \<in> keys_of cama b - keys_of mls a"
      | (B) "row_get r ''_merge'' PyNone = Str ''both''"
          "row_get r b PyNone \<in> keys_of mls a \<inter> keys_of cama b"
      by blast
    then show ?thesis
    proof cases
      case L
      have "in_bucket (C r) MissingInB"
        unfolding C_def by (simp only: contribution_left_only[OF L(1)])
      with one L show ?thesis by blast
    next
      case R
      have "in_bucket (C r) MissingInA"
        unfolding C_def by (simp only: contribution_right_only[OF R(1)])
      with one R show ?thesis by blast
    next
      case B
      have three: "in_bucket (C r) Mismatched \<or> in_bucket (C r) PerfectMatch
                        \<or> in_bucket (C r) Skipped"
        unfolding C_def by (simp only: contribution_both[OF B(1)] Let_def) simp
      have sk: "in_bucket (C r) Skipped \<longleftrightarrow>
                 fields_compared (compare_record L tol skip (columns M) r
                   (row_get r b PyNone) cols_mapping cols_sum cols_categorical) = []"
        unfolding C_def by (rule skipped_iff_nothing_compared[OF B(1)])
      from one B three sk show ?thesis by blast
    qed
  qed
  have cover: "(\<lambda>r. row_get r b PyNone) ` set (rows M) = keys_of mls a \<union> keys_of cama b"
    unfolding M_def merge_outer_keys keys ..
  show ?thesis
    unfolding Let_def M_def[symmetric] C_def[symmetric]
    using run row cover by blast
qed

theorem every_key_in_one_bucket_witness:
  "(\<exists>out. compare_data_enhanced plain_lib NUMERIC_TOLERANCE True (Some two_listings)
            (Some two_parcels) sample_ids [bedrooms] [] [] = Inr out
        \<and> map mc_Parcel_ID (missing_in_cama (result out)) = [Str ''P2'']
        \<and> missing_in_mls (result out) = [Str ''P3'']
        \<and> map Parcel_ID (value_mismatches (result out)) = [Str ''P1'']
        \<and> perfect_matches (result out) = [])
   \<and> (\<lambda>r. row_get r ''PARID'' PyNone) `
        set (rows (merge_outer (rename two_listings ''Parcel Number'' ''PARID'') two_parcels
                     ''PARID''))
      = {Str ''P1'', Str ''P2'', Str ''P3''}"
proof -
  have h: "''Parcel Number'' \<in> set (columns two_listings)"
    "''PARID'' \<in> set (columns two_parcels)"
    "[bedrooms] \<noteq> []"
    "''_merge'' \<notin> set (columns two_listings)"
    "''_merge'' \<notin> set (columns two_parcels)"
    "''Parcel Number'' = ''PARID'' \<or> (\<forall>r\<in>set (rows two_listings). ''PARID'' \<notin> fst ` set r)"
    by (simp_all add: two_listings_def two_parcels_def)
  note t = every_key_in_one_bucket [OF h, of plain_lib NUMERIC_TOLERANCE True "[]" "[]",
      unfolded Let_def]
  have k: "keys_of two_listings ''Parcel Number'' \<union> keys_of two_parcels ''PARID''
      = {Str ''P1'', Str ''P2'', Str ''P3''}"
    by (auto simp: keys_of_def two_listings_def two_parcels_def cell_def row_get_def)
  have M: "rows (merge_outer (rename two_listings ''Parcel Number'' ''PARID'') two_parcels ''PARID'')
     = [[(''PARID'', Str ''P1''), (''Bedrooms Total'', Number (Finite 3)),
         (''RMBED'', Number (Finite 4)), (''_merge'', Str ''both'')],
        [(''PARID'', Str ''P2''), (''Bedrooms Total'', Number (Finite 2)),
         (''RMBED'', nan), (''_merge'', Str ''left_only'')],
        [(''PARID'', Str ''P3''), (''Bedrooms Total'', nan),
         (''RMBED'', Number (Finite 1)), (''_merge'', Str ''right_only'')]]"
    "columns (merge_outer (rename two_listings ''Parcel Number'' ''PARID'') two_parcels ''PARID'')
     = [''PARID'', ''Bedrooms Total'', ''RMBED'', ''_merge'']"
    by (simp_all add: two_listings_def two_parcels_def merge_defs)
  have c1: "contribution plain_lib NUMERIC_TOLERANCE True
        [''PARID'', ''Bedrooms Total'', ''RMBED'', ''_merge''] ''PARID'' [bedrooms] [] []
        [(''PARID'', Str ''P1''), (''Bedrooms Total'', Number (Finite 3)),
         (''RMBED'', Number (Finite 4)), (''_merge'', Str ''both'')]
      = \<lparr>missing_in_cama = [], missing_in_mls = [],
         value_mismatches =
           [\<lparr>Parcel_ID = Str ''P1'', info = no_ident, Field_MLS = ''Bedrooms Total'',
             Field_CAMA = ''RMBED'', MLS_Value = Number (Finite 3),
             CAMA_Value = Number (Finite 4), Difference = Some ''-1.00'',
             Expected_CAMA_Value = None, Match_Rule = None\<rparr>],
         perfect_matches = []\<rparr>"
    by (simp add: contribution_def process_row_def compare_record_def compare_direct_def
        bedrooms_def row_get_def is_blank_def direct_zero_def is_zero_def values_equal_def
        isclose_def NUMERIC_TOLERANCE_def calculate_difference_def format_2f_def
        round_half_even_def digit_char_def no_tables_def no_ident_def get_ident_def
        plain_lib_def Let_def)
  have c2: "contribution plain_lib NUMERIC_TOLERANCE True
        [''PARID'', ''Bedrooms Total'', ''RMBED'', ''_merge''] ''PARID'' [bedrooms] [] []
        [(''PARID'', Str ''P2''), (''Bedrooms Total'', Number (Finite 2)),
         (''RMBED'', nan), (''_merge'', Str ''left_only'')]
      = \<lparr>missing_in_cama = [\<lparr>mc_Parcel_ID = Str ''P2'', mc_Listing_Number = Str [],
                               mc_Closed_Date = Str []\<rparr>],
         missing_in_mls = [], value_mismatches = [], perfect_matches = []\<rparr>"
    by (simp add: contribution_def process_row_def row_get_def no_tables_def Let_def)
  have c3: "contribution plain_lib NUMERIC_TOLERANCE True
        [''PARID'', ''Bedrooms Total'', ''RMBED'', ''_merge''] ''PARID'' [bedrooms] [] []
        [(''PARID'', Str ''P3''), (''Bedrooms Total'', nan),
         (''RMBED'', Number (Finite 1)), (''_merge'', Str ''right_only'')]
      = \<lparr>missing_in_cama = [], missing_in_mls = [Str ''P3''], value_mismatches = [],
         perfect_matches = []\<rparr>"
    by (simp add: contribution_def process_row_def row_get_def no_tables_def Let_def)
  from t have run: "compare_data_enhanced plain_lib NUMERIC_TOLERANCE True (Some two_listings)
            (Some two_parcels) sample_ids [bedrooms] [] [] = Inr
       \<lparr>result =
          \<lparr>missing_in_cama = [\<lparr>mc_Parcel_ID = Str ''P2'', mc_Listing_Number = Str [],
                               mc_Closed_Date = Str []\<rparr>],
           missing_in_mls = [Str ''P3''],
           value_mismatches =
             [\<lparr>Parcel_ID = Str ''P1'', info = no_ident, Field_MLS = ''Bedrooms Total'',
               Field_CAMA = ''RMBED'', MLS_Value = Number (Finite 3),
               CAMA_Value = Number (Finite 4), Difference = Some ''-1.00'',
               Expected_CAMA_Value = None, Match_Rule = None\<rparr>],
           perfect_matches = []\<rparr>,
        matched_df = merge_inner (rename two_listings ''Parcel Number'' ''PARID'') two_parcels
                       ''PARID''\<rparr>"
    by (simp add: M c1 c2 c3 sample_ids_def)
  from t have cover: "(\<lambda>r. row_get r ''PARID'' PyNone) `
        set (rows (merge_outer (rename two_listings ''Parcel Number'' ''PARID'') two_parcels
                     ''PARID''))
      = keys_of two_listings ''Parcel Number'' \<union> keys_of two_parcels ''PARID''"
    by blast
  show ?thesis
    using run cover k by simp
qed


end
